theory Spec2Isabelle
  imports Complex_Main "HOL-Library.Product_Lexorder"
begin

section \<open>A shallow embedding of \<open>Dynamic_DCF_Model.py\<close>\<close>

text \<open>
  The script is one straight-line computation inside a \<^verbatim>\<open>try\<close> block. Each variable the
  script assigns is modelled by a function of the variables it is computed from, under the
  variable's own name.

  Numbers. The script computes with IEEE doubles. The model computes with \<^typ>\<open>real\<close>: every
  finite intermediate result is taken to be the exact real one (no rounding error, no overflow).
  What is kept of the float semantics is the one place where it differs in kind from real
  arithmetic: a numpy division by zero does not raise, it yields \<open>inf\<close> or \<open>nan\<close>, and that value
  then propagates through the arithmetic that follows. Such a non-finite float is the value
  \<open>None\<close> of type \<open>npfloat\<close>.

  Exceptions. A raise is the left injection of a sum type; the script's single
  \<^verbatim>\<open>except Exception\<close> catches every one of them.
\<close>

subsection \<open>Errors and floats\<close>

datatype error = KeyError | IndexError

definition bind_err :: "error + 'a \<Rightarrow> ('a \<Rightarrow> error + 'b) \<Rightarrow> error + 'b" where
  "bind_err m f = (case m of Inl e \<Rightarrow> Inl e | Inr x \<Rightarrow> f x)"

type_synonym npfloat = "real option"

definition np_add :: "npfloat \<Rightarrow> npfloat \<Rightarrow> npfloat" where
  "np_add x y = (case x of None \<Rightarrow> None | Some a \<Rightarrow> (case y of None \<Rightarrow> None | Some b \<Rightarrow> Some (a + b)))"

definition np_sub :: "npfloat \<Rightarrow> real \<Rightarrow> npfloat" where
  "np_sub x b = (case x of None \<Rightarrow> None | Some a \<Rightarrow> Some (a - b))"

definition np_mul :: "npfloat \<Rightarrow> real \<Rightarrow> npfloat" where
  "np_mul x b = (case x of None \<Rightarrow> None | Some a \<Rightarrow> Some (a * b))"

text \<open>Division of a numpy float by a finite number: by zero it gives \<open>inf\<close> or \<open>nan\<close>.\<close>

definition np_div :: "npfloat \<Rightarrow> real \<Rightarrow> npfloat" where
  "np_div x b = (case x of None \<Rightarrow> None | Some a \<Rightarrow> if b = 0 then None else Some (a / b))"

text \<open>Python's \<^verbatim>\<open>sum\<close>: starts at 0 and adds from the left.\<close>

definition py_sum :: "npfloat list \<Rightarrow> npfloat" where
  "py_sum xs = foldl np_add (Some 0) xs"

text \<open>\<^verbatim>\<open>enumerate(xs, start=1)\<close>.\<close>

definition enumerate1 :: "'a list \<Rightarrow> (nat \<times> 'a) list" where
  "enumerate1 xs = zip [1 ..< Suc (length xs)] xs"

text \<open>\<^verbatim>\<open>xs[-1]\<close> on a Python list.\<close>

definition py_last :: "'a list \<Rightarrow> error + 'a" where
  "py_last xs = (if xs = [] then Inl IndexError else Inr (last xs))"

subsection \<open>Data frames\<close>

text \<open>
  A timestamp is (year, month, day), ordered lexicographically. A statement frame, after the
  script's transposition, has one row per fiscal period, indexed by its date; a cell that is
  \<open>NaN\<close> is \<open>None\<close>. Indexing a frame with a column it does not have raises \<open>KeyError\<close>.
\<close>

type_synonym date = "int \<times> int \<times> int"

definition year :: "date \<Rightarrow> int" where
  "year d = fst d"

record frame =
  frame_columns :: "string list"
  frame_rows :: "(date \<times> (string \<Rightarrow> real option)) list"

text \<open>\<^verbatim>\<open>frame.T / 1e9\<close>: every cell divided by \<open>10^9\<close>; \<open>NaN\<close> stays \<open>NaN\<close>.\<close>

definition scale_frame :: "frame \<Rightarrow> frame" where
  "scale_frame fr =
     fr\<lparr>frame_rows := map (\<lambda>(d, r). (d, \<lambda>c. map_option (\<lambda>v. v / 10 ^ 9) (r c))) (frame_rows fr)\<rparr>"

definition get_column :: "frame \<Rightarrow> string \<Rightarrow> error + (date \<times> real option) list" where
  "get_column fr c =
     (if c \<in> set (frame_columns fr) then Inr (map (\<lambda>(d, r). (d, r c)) (frame_rows fr))
      else Inl KeyError)"

subsection \<open>Free cash flow history (lines 45 to 58)\<close>

text \<open>
  \<^verbatim>\<open>fcff = cfo + capex\<close> adds two series of the same frame row by row; a \<open>NaN\<close> operand gives
  \<open>NaN\<close>.
\<close>

record fcff_row =
  row_date :: date
  cash_from_operations :: "real option"
  capex_col :: "real option"
  free_cash_flow :: "real option"

definition nan_add :: "real option \<Rightarrow> real option \<Rightarrow> real option" where
  "nan_add x y = (case x of None \<Rightarrow> None | Some a \<Rightarrow> (case y of None \<Rightarrow> None | Some b \<Rightarrow> Some (a + b)))"

definition fcff_frame :: "(date \<times> real option) list \<Rightarrow> (date \<times> real option) list \<Rightarrow> fcff_row list" where
  "fcff_frame cfo capex =
     map (\<lambda>((d, c), (_, x)).
            \<lparr>row_date = d, cash_from_operations = c, capex_col = x, free_cash_flow = nan_add c x\<rparr>)
         (zip cfo capex)"

text \<open>\<^verbatim>\<open>dropna(how="any")\<close>: a row with a \<open>NaN\<close> in any of its three columns is dropped.\<close>

definition has_nan :: "fcff_row \<Rightarrow> bool" where
  "has_nan r \<longleftrightarrow> cash_from_operations r = None \<or> capex_col r = None \<or> free_cash_flow r = None"

definition dropna :: "fcff_row list \<Rightarrow> fcff_row list" where
  "dropna rs = filter (\<lambda>r. \<not> has_nan r) rs"

text \<open>
  \<open>fcff_df\<close> after \<^verbatim>\<open>sort_index(ascending=True)\<close> and \<^verbatim>\<open>dropna\<close>. The statement's dates are
  distinct, so the order of rows with equal dates (which pandas does not fix) plays no role.
\<close>

definition fcff_df :: "frame \<Rightarrow> error + fcff_row list" where
  "fcff_df cash_flow =
     bind_err (get_column cash_flow ''Cash Flow From Continuing Operating Activities'') (\<lambda>cfo.
     bind_err (get_column cash_flow ''Capital Expenditure'') (\<lambda>capex.
     Inr (dropna (sort_key row_date (fcff_frame cfo capex)))))"

text \<open>
  For comparison, the history as the specification words it: the periods that have both an
  operating cash flow and a capital expenditure, with their sum as free cash flow.
\<close>

definition spec_valid_periods :: "frame \<Rightarrow> fcff_row list" where
  "spec_valid_periods cash_flow =
     List.map_filter
       (\<lambda>(d, r). case (r ''Cash Flow From Continuing Operating Activities'', r ''Capital Expenditure'') of
                   (Some c, Some x) \<Rightarrow>
                     Some \<lparr>row_date = d, cash_from_operations = Some c, capex_col = Some x,
                           free_cash_flow = Some (c + x)\<rparr>
                 | _ \<Rightarrow> None)
       (frame_rows cash_flow)"

text \<open>\<^verbatim>\<open>.tail(3)\<close>: the last three rows, or all of them when there are fewer.\<close>

definition tail3 :: "'a list \<Rightarrow> 'a list" where
  "tail3 xs = drop (length xs - 3) xs"

text \<open>
  \<^verbatim>\<open>Series.mean()\<close> skips \<open>NaN\<close> values and divides the sum of the others by their number; it
  is \<open>nan\<close> when nothing is left.
\<close>

definition mean :: "real option list \<Rightarrow> npfloat" where
  "mean xs =
     (let ys = List.map_filter (\<lambda>x. x) xs
      in if ys = [] then None else Some (sum_list ys / real (length ys)))"

definition fcff_column :: "fcff_row list \<Rightarrow> real option list" where
  "fcff_column df = map free_cash_flow df"

definition base_fcff :: "fcff_row list \<Rightarrow> npfloat" where
  "base_fcff df = mean (tail3 (fcff_column df))"

text \<open>\<^verbatim>\<open>fcff_df.index[-1]\<close> raises \<open>IndexError\<close> on an empty index.\<close>

definition last_year :: "fcff_row list \<Rightarrow> error + int" where
  "last_year df = (if df = [] then Inl IndexError else Inr (year (row_date (last df))))"

subsection \<open>Projection (lines 61 to 67)\<close>

definition forecast_years_range :: "int \<Rightarrow> nat \<Rightarrow> int list" where
  "forecast_years_range ly forecast_years = map (\<lambda>k. ly + 1 + int k) [0 ..< forecast_years]"

text \<open>
  The base is the mean computed above, a numpy float: were it \<open>nan\<close>, every projected value
  would be \<open>nan\<close>.
\<close>

definition projected_fcff :: "npfloat \<Rightarrow> real \<Rightarrow> nat \<Rightarrow> npfloat list" where
  "projected_fcff base fcff_growth_rate forecast_years =
     map (\<lambda>i. np_mul base ((1 + fcff_growth_rate) ^ i)) [1 ..< Suc forecast_years]"

text \<open>\<open>projection_df\<close>: the projected values indexed by their years.\<close>

definition projection_df :: "int list \<Rightarrow> npfloat list \<Rightarrow> (int \<times> npfloat) list" where
  "projection_df years projected = zip years projected"

subsection \<open>Discount rate (lines 70 to 88)\<close>

text \<open>\<^verbatim>\<open>series.dropna().iloc[-1]\<close>: the last value that is not \<open>NaN\<close>.\<close>

definition last_valid :: "real option list \<Rightarrow> error + real" where
  "last_valid xs =
     (let ys = List.map_filter (\<lambda>x. x) xs in if ys = [] then Inl IndexError else Inr (last ys))"

definition risk_free_rate :: "real option list \<Rightarrow> error + real" where
  "risk_free_rate dgs10 = bind_err (last_valid dgs10) (\<lambda>y. Inr (y / 100))"

text \<open>
  The profile \<open>info\<close> is a dictionary. \<^verbatim>\<open>info["marketCap"]\<close> raises \<open>KeyError\<close> on a missing
  key; \<^verbatim>\<open>info.get('totalDebt', 0)\<close> gives 0 instead.
\<close>

definition market_cap :: "(string \<Rightarrow> real option) \<Rightarrow> error + real" where
  "market_cap info = (case info ''marketCap'' of None \<Rightarrow> Inl KeyError | Some v \<Rightarrow> Inr (v / 10 ^ 9))"

definition total_debt :: "(string \<Rightarrow> real option) \<Rightarrow> real" where
  "total_debt info = (case info ''totalDebt'' of None \<Rightarrow> 0 | Some v \<Rightarrow> v) / 10 ^ 9"

definition cash :: "(string \<Rightarrow> real option) \<Rightarrow> real" where
  "cash info = (case info ''totalCash'' of None \<Rightarrow> 0 | Some v \<Rightarrow> v) / 10 ^ 9"

definition net_debt :: "(string \<Rightarrow> real option) \<Rightarrow> real" where
  "net_debt info = total_debt info - cash info"

definition shares_outstanding :: "(string \<Rightarrow> real option) \<Rightarrow> error + real" where
  "shares_outstanding info =
     (case info ''sharesOutstanding'' of None \<Rightarrow> Inl KeyError | Some v \<Rightarrow> Inr v)"

text \<open>The income statement is read only when there is debt.\<close>

definition interest_expense :: "frame \<Rightarrow> real \<Rightarrow> error + real" where
  "interest_expense income_stmt td =
     (if td > 0 then
        bind_err (get_column income_stmt ''Interest Expense'') (\<lambda>col.
        bind_err (last_valid (map snd col)) (\<lambda>v. Inr \<bar>v\<bar>))
      else Inr 0)"

definition cost_of_debt :: "real \<Rightarrow> real \<Rightarrow> real" where
  "cost_of_debt ie td = (if td > 0 then ie / td else 2 / 100)"

definition tax_rate :: real where
  "tax_rate = 21 / 100"

definition cost_of_equity :: "real \<Rightarrow> real \<Rightarrow> real \<Rightarrow> real" where
  "cost_of_equity rf beta market_return = rf + beta * (market_return - rf)"

definition total_value :: "real \<Rightarrow> real \<Rightarrow> real" where
  "total_value mc nd = mc + nd"

definition equity_weight :: "real \<Rightarrow> real \<Rightarrow> real" where
  "equity_weight mc nd = (if total_value mc nd \<noteq> 0 then mc / total_value mc nd else 1)"

definition debt_weight :: "real \<Rightarrow> real \<Rightarrow> real" where
  "debt_weight mc nd = (if total_value mc nd \<noteq> 0 then nd / total_value mc nd else 0)"

definition wacc :: "real \<Rightarrow> real \<Rightarrow> real \<Rightarrow> real \<Rightarrow> real" where
  "wacc ew coe dw cod = (ew * coe) + (dw * cod * (1 - tax_rate))"

subsection \<open>Valuation (lines 91 to 100)\<close>

definition discounted_fcffs :: "npfloat list \<Rightarrow> real \<Rightarrow> npfloat list" where
  "discounted_fcffs projected w = map (\<lambda>(i, fcff). np_div fcff ((1 + w) ^ i)) (enumerate1 projected)"

text \<open>\<^verbatim>\<open>projected_fcff[-1]\<close> raises \<open>IndexError\<close> on an empty list.\<close>

definition terminal_value :: "npfloat list \<Rightarrow> real \<Rightarrow> real \<Rightarrow> error + npfloat" where
  "terminal_value projected terminal_growth_rate w =
     bind_err (py_last projected) (\<lambda>p.
     Inr (np_div (np_mul p (1 + terminal_growth_rate)) (w - terminal_growth_rate)))"

definition terminal_value_discounted :: "npfloat \<Rightarrow> real \<Rightarrow> nat \<Rightarrow> npfloat" where
  "terminal_value_discounted tv w forecast_years = np_div tv ((1 + w) ^ forecast_years)"

definition enterprise_value :: "npfloat list \<Rightarrow> npfloat \<Rightarrow> npfloat" where
  "enterprise_value discounted tvd = np_add (py_sum discounted) tvd"

definition equity_value :: "npfloat \<Rightarrow> real \<Rightarrow> npfloat" where
  "equity_value ev nd = np_sub ev nd"

definition fair_value_per_share :: "npfloat \<Rightarrow> real \<Rightarrow> npfloat" where
  "fair_value_per_share eqv shares = np_div (np_mul eqv (10 ^ 9)) shares"

text \<open>
  Lines 91 to 100 in sequence. \<^verbatim>\<open>info['sharesOutstanding']\<close> is read on line 99, after the
  terminal value has been computed.
\<close>

record valuation =
  v_discounted_fcffs :: "npfloat list"
  v_terminal_value :: npfloat
  v_terminal_value_discounted :: npfloat
  v_enterprise_value :: npfloat
  v_equity_value :: npfloat
  v_shares_outstanding :: real
  v_fair_value_per_share :: npfloat

definition base_case ::
  "npfloat list \<Rightarrow> nat \<Rightarrow> real \<Rightarrow> real \<Rightarrow> real \<Rightarrow> (string \<Rightarrow> real option) \<Rightarrow> error + valuation" where
  "base_case projected forecast_years w terminal_growth_rate nd prof =
     (let disc = discounted_fcffs projected w in
      bind_err (terminal_value projected terminal_growth_rate w) (\<lambda>tv.
      let tvd = terminal_value_discounted tv w forecast_years;
          ev = enterprise_value disc tvd;
          eqv = equity_value ev nd
      in
      bind_err (shares_outstanding prof) (\<lambda>shares.
      Inr \<lparr>v_discounted_fcffs = disc, v_terminal_value = tv, v_terminal_value_discounted = tvd,
           v_enterprise_value = ev, v_equity_value = eqv, v_shares_outstanding = shares,
           v_fair_value_per_share = fair_value_per_share eqv shares\<rparr>)))"

subsection \<open>The computation block (lines 35 to 100)\<close>

text \<open>
  The inputs: the sidebar's values (the three rates as the sliders give them, in percent) and
  what the two data providers return. \<open>financials\<close> and \<open>cash_flow_stmt\<close> are the statement
  frames already transposed, \<open>dgs10\<close> is the treasury-yield series in date order.
\<close>

record assumptions =
  forecast_years_slider :: nat
  fcff_growth_slider :: real
  terminal_growth_slider :: real
  beta_input :: real
  market_return_input :: real

record market_data =
  info :: "string \<Rightarrow> real option"
  financials :: frame
  cash_flow_stmt :: frame
  dgs10 :: "real option list"

record results =
  r_fcff_df :: "fcff_row list"
  r_projected_fcff :: "npfloat list"
  r_projection_df :: "(int \<times> npfloat) list"
  r_risk_free_rate :: real
  r_market_cap :: real
  r_total_debt :: real
  r_cash :: real
  r_net_debt :: real
  r_interest_expense :: real
  r_cost_of_debt :: real
  r_cost_of_equity :: real
  r_wacc :: real
  r_valuation :: valuation

definition compute :: "assumptions \<Rightarrow> market_data \<Rightarrow> error + results" where
  "compute a d =
     (let forecast_years = forecast_years_slider a;
          fcff_growth_rate = fcff_growth_slider a / 100;
          terminal_growth_rate = terminal_growth_slider a / 100;
          market_return = market_return_input a / 100;
          income_stmt = scale_frame (financials d);
          cash_flow = scale_frame (cash_flow_stmt d)
      in
      bind_err (fcff_df cash_flow) (\<lambda>df.
      let base = base_fcff df in
      bind_err (last_year df) (\<lambda>ly.
      let years = forecast_years_range ly forecast_years;
          projected = projected_fcff base fcff_growth_rate forecast_years
      in
      bind_err (risk_free_rate (dgs10 d)) (\<lambda>rf.
      bind_err (market_cap (info d)) (\<lambda>mc.
      let td = total_debt (info d);
          nd = net_debt (info d)
      in
      bind_err (interest_expense income_stmt td) (\<lambda>ie.
      let cod = cost_of_debt ie td;
          coe = cost_of_equity rf (beta_input a) market_return;
          w = wacc (equity_weight mc nd) coe (debt_weight mc nd) cod
      in
      bind_err (base_case projected forecast_years w terminal_growth_rate nd (info d)) (\<lambda>v.
      Inr \<lparr>r_fcff_df = df, r_projected_fcff = projected,
           r_projection_df = projection_df years projected,
           r_risk_free_rate = rf, r_market_cap = mc, r_total_debt = td, r_cash = cash (info d),
           r_net_debt = nd, r_interest_expense = ie, r_cost_of_debt = cod,
           r_cost_of_equity = coe, r_wacc = w, r_valuation = v\<rparr>)))))))"

subsection \<open>Sensitivity table (lines 157 to 175)\<close>

text \<open>
  \<^verbatim>\<open>np.arange(start, stop, step)\<close>: \<open>\<lceil>(stop - start) / step\<rceil>\<close> values from \<open>start\<close> on, here
  in exact arithmetic. On doubles the quotient can come out just above a whole number, which
  adds a value, and the values can differ from the exact ones in the last bit. What is proved
  of the table below is therefore also proved for arbitrary lists of rates.
\<close>

definition arange :: "real \<Rightarrow> real \<Rightarrow> real \<Rightarrow> real list" where
  "arange start stop step = map (\<lambda>k. start + real k * step) [0 ..< nat \<lceil>(stop - start) / step\<rceil>]"

definition wacc_range :: "real \<Rightarrow> real list" where
  "wacc_range w = arange (w - 1 / 100) (w + 15 / 1000) (5 / 1000)"

definition g_range :: "real list" where
  "g_range = arange (35 / 1000) (6 / 100) (5 / 1000)"

text \<open>The body of the loop after the test \<^verbatim>\<open>w <= g\<close>, up to \<open>fair_price\<close> (lines 168 to 174).\<close>

definition fair_price :: "npfloat list \<Rightarrow> nat \<Rightarrow> real \<Rightarrow> real \<Rightarrow> real \<Rightarrow> real \<Rightarrow> error + npfloat" where
  "fair_price projected forecast_years nd shares w g =
     bind_err (py_last projected) (\<lambda>p.
     let tv = np_div (np_mul p (1 + g)) (w - g);
         tv_disc = np_div tv ((1 + w) ^ forecast_years);
         ent_val = np_add (py_sum (map (\<lambda>(i, fcff). np_div fcff ((1 + w) ^ i)) (enumerate1 projected))) tv_disc;
         eq_val = np_sub ent_val nd
     in Inr (np_div (np_mul eq_val (10 ^ 9)) shares))"

text \<open>
  \<^verbatim>\<open>round(x, 2)\<close>: to the nearest multiple of \<open>1/100\<close>, a tie to the even one; \<open>inf\<close> and
  \<open>nan\<close> are kept.
\<close>

definition round_half_even :: "real \<Rightarrow> int" where
  "round_half_even y =
     (let f = \<lfloor>y\<rfloor>; r = y - of_int f
      in if r < 1 / 2 then f else if r > 1 / 2 then f + 1 else if even f then f else f + 1)"

definition py_round :: "npfloat \<Rightarrow> nat \<Rightarrow> npfloat" where
  "py_round x n = map_option (\<lambda>a. of_int (round_half_even (a * 10 ^ n)) / 10 ^ n) x"

text \<open>
  A cell of the table holds the string \<^verbatim>\<open>"N/A"\<close> or a float; a fresh frame holds \<open>NaN\<close>
  everywhere. The table is addressed by a row label and a column label.
\<close>

datatype cell = Text string | Number npfloat

type_synonym table = "string \<times> string \<Rightarrow> cell option"

definition empty_table :: "string list \<Rightarrow> string list \<Rightarrow> table" where
  "empty_table index cols = map_of (map (\<lambda>k. (k, Number None)) (List.product index cols))"

text \<open>What one pass of the inner loop's body stores in its cell.\<close>

definition cell_value :: "npfloat list \<Rightarrow> nat \<Rightarrow> real \<Rightarrow> real \<Rightarrow> real \<Rightarrow> real \<Rightarrow> error + cell" where
  "cell_value projected forecast_years nd shares w g =
     (if w \<le> g then Inr (Text ''N/A'')
      else bind_err (fair_price projected forecast_years nd shares w g) (\<lambda>fp.
           Inr (Number (py_round fp 2))))"

text \<open>
  The two loops. \<open>label\<close> stands for the formatting \<^verbatim>\<open>f"{round(x*100,1)}%"\<close> of a rate as a
  row or column label, \<open>body\<close> for the loop body above.
\<close>

fun g_loop :: "(real \<Rightarrow> string) \<Rightarrow> (real \<Rightarrow> real \<Rightarrow> error + cell) \<Rightarrow> real \<Rightarrow> real list \<Rightarrow> table \<Rightarrow> error + table" where
  "g_loop label body w [] df = Inr df"
| "g_loop label body w (g # gs) df =
     bind_err (body w g) (\<lambda>c. g_loop label body w gs (df((label w, label g) \<mapsto> c)))"

fun w_loop :: "(real \<Rightarrow> string) \<Rightarrow> (real \<Rightarrow> real \<Rightarrow> error + cell) \<Rightarrow> real list \<Rightarrow> real list \<Rightarrow> table \<Rightarrow> error + table" where
  "w_loop label body [] gs df = Inr df"
| "w_loop label body (w # ws) gs df =
     bind_err (g_loop label body w gs df) (\<lambda>df'. w_loop label body ws gs df')"

definition sensitivity_df ::
  "(real \<Rightarrow> string) \<Rightarrow> npfloat list \<Rightarrow> nat \<Rightarrow> real \<Rightarrow> real \<Rightarrow> real list \<Rightarrow> real list \<Rightarrow> error + table" where
  "sensitivity_df label projected forecast_years nd shares ws gs =
     w_loop label (cell_value projected forecast_years nd shares) ws gs
       (empty_table (map label ws) (map label gs))"

text \<open>
  The label of a rate: its percentage rounded to one decimal (\<open>k\<close> tenths), printed with that
  decimal, and a percent sign. (Python prints a float of magnitude \<open>10^16\<close> or more with an exponent; no rate
  is that large.)
\<close>

definition digit :: "nat \<Rightarrow> char" where
  "digit d = ''0123456789'' ! d"

function show_nat :: "nat \<Rightarrow> string" where
  "show_nat n = (if n < 10 then [digit n] else show_nat (n div 10) @ [digit (n mod 10)])"
  by pat_completeness auto
termination
  by (relation "measure (\<lambda>n. n)") auto

definition tenths_label :: "int \<Rightarrow> string" where
  "tenths_label k =
     (let m = nat \<bar>k\<bar>
      in (if k < 0 then ''-'' else []) @ show_nat (m div 10) @ ''.'' @ [digit (m mod 10)] @ ''%'')"

definition pct_label :: "real \<Rightarrow> string" where
  "pct_label x = tenths_label (round_half_even (x * 100 * 10))"

subsection \<open>The page (lines 12 to 182)\<close>

text \<open>
  What the script puts on the page, in order: one element per call of \<^verbatim>\<open>st.title\<close>,
  \<^verbatim>\<open>st.markdown\<close>, \<^verbatim>\<open>st.subheader\<close>, \<^verbatim>\<open>st.metric\<close>, \<^verbatim>\<open>st.write\<close>, \<^verbatim>\<open>st.pyplot\<close>,
  \<^verbatim>\<open>st.dataframe\<close>, \<^verbatim>\<open>st.error\<close> and \<^verbatim>\<open>st.caption\<close>. A number is shown as the value
  itself, its formatting to two decimals left out.
\<close>

datatype shown = Amount npfloat | Words string

datatype element =
    Title string
  | Intro string
  | Divider
  | Subheader string
  | Metric string shown
  | Write string real
  | Pyplot "(int \<times> npfloat) list"
  | Dataframe table
  | Error
  | Caption

definition combined_fcff :: "results \<Rightarrow> (int \<times> npfloat) list" where
  "combined_fcff r =
     map (\<lambda>row. (year (row_date row), free_cash_flow row)) (tail3 (r_fcff_df r)) @ r_projection_df r"

definition summary :: "assumptions \<Rightarrow> results \<Rightarrow> element list" where
  "summary a r =
     [Subheader ''Key Financial Inputs'',
      Metric ''Market Cap (B)'' (Amount (Some (r_market_cap r))),
      Metric ''Total Debt (B)'' (Amount (Some (r_total_debt r))),
      Metric ''Total Cash (B)'' (Amount (Some (r_cash r))),
      (if r_net_debt r \<ge> 0 then Metric ''Net Debt (B)'' (Amount (Some (r_net_debt r)))
       else Metric ''Net Debt'' (Words ''O(Excess Cash)'')),
      Metric ''Interest Expense (B)'' (Amount (Some (r_interest_expense r))),
      Metric ''Beta'' (Amount (Some (beta_input a))),
      Metric ''Risk-Free Rate'' (Amount (Some (r_risk_free_rate r * 100))),
      Metric ''Market Return'' (Amount (Some (market_return_input a / 100 * 100))),
      Metric ''Cost of Debt'' (Amount (Some (r_cost_of_debt r * 100))),
      Metric ''Cost of Equity'' (Amount (Some (r_cost_of_equity r * 100))),
      Metric ''WACC'' (Amount (Some (r_wacc r * 100))),
      Divider,
      Subheader ''Valuation Results'',
      Write ''Forecast Period'' (real (forecast_years_slider a)),
      Write ''FCFF Growth Rate'' (fcff_growth_slider a / 100 * 100),
      Write ''Terminal Growth Rate'' (terminal_growth_slider a / 100 * 100),
      Metric ''Enterprise Value (in Billions)'' (Amount (v_enterprise_value (r_valuation r))),
      Metric ''Equity Value (in Billions)'' (Amount (v_equity_value (r_valuation r))),
      Metric ''Fair Value per Share'' (Amount (v_fair_value_per_share (r_valuation r))),
      Divider,
      Subheader ''Historical & Projected FCFF'',
      Pyplot (combined_fcff r),
      Divider,
      Subheader ''Sensitivity Analysis'']"

definition sensitivity :: "assumptions \<Rightarrow> results \<Rightarrow> error + table" where
  "sensitivity a r =
     sensitivity_df pct_label (r_projected_fcff r) (forecast_years_slider a) (r_net_debt r)
       (v_shares_outstanding (r_valuation r)) (wacc_range (r_wacc r)) g_range"

text \<open>
  The whole script. An exception leaves the \<^verbatim>\<open>try\<close> block at the point where it is raised:
  what was put on the page before stays, \<^verbatim>\<open>st.error\<close> follows.
\<close>

definition main :: "string \<Rightarrow> assumptions \<Rightarrow> market_data \<Rightarrow> element list" where
  "main ticker a d =
     (if ticker = [] then [Caption]
      else [Title ticker, Intro ticker] @
        (case compute a d of
           Inl e \<Rightarrow> [Error]
         | Inr r \<Rightarrow> summary a r @
             (case sensitivity a r of Inl e \<Rightarrow> [Error] | Inr t \<Rightarrow> [Dataframe t])) @
        [Divider, Caption])"

subsection \<open>Sample inputs\<close>

text \<open>
  A cash-flow statement with five fiscal periods, most recent first, one of them without a
  capital expenditure; an income statement with a gap; a profile with debt and as much cash; a
  yield series with a gap. Amounts are in currency units, as the provider gives them.
\<close>

definition ex_period :: "int \<Rightarrow> real option \<Rightarrow> real option \<Rightarrow> date \<times> (string \<Rightarrow> real option)" where
  "ex_period y cfo capex =
     ((y, 6, 30),
      (\<lambda>c. if c = ''Cash Flow From Continuing Operating Activities'' then cfo
           else if c = ''Capital Expenditure'' then capex else None))"

definition ex_cash_flow :: frame where
  "ex_cash_flow =
     \<lparr>frame_columns = [''Cash Flow From Continuing Operating Activities'', ''Capital Expenditure''],
      frame_rows =
        [ex_period 2024 (Some (110 * 10 ^ 9)) (Some (- 40 * 10 ^ 9)),
         ex_period 2023 (Some (90 * 10 ^ 9)) (Some (- 30 * 10 ^ 9)),
         ex_period 2022 (Some (80 * 10 ^ 9)) None,
         ex_period 2021 (Some (70 * 10 ^ 9)) (Some (- 20 * 10 ^ 9)),
         ex_period 2020 (Some (60 * 10 ^ 9)) (Some (- 20 * 10 ^ 9))]\<rparr>"

definition ex_short_cash_flow :: frame where
  "ex_short_cash_flow =
     \<lparr>frame_columns = [''Cash Flow From Continuing Operating Activities'', ''Capital Expenditure''],
      frame_rows =
        [ex_period 2024 (Some (110 * 10 ^ 9)) (Some (- 40 * 10 ^ 9)),
         ex_period 2023 None (Some (- 30 * 10 ^ 9))]\<rparr>"

definition ex_void_cash_flow :: frame where
  "ex_void_cash_flow =
     \<lparr>frame_columns = [''Cash Flow From Continuing Operating Activities'', ''Capital Expenditure''],
      frame_rows =
        [ex_period 2024 (Some (110 * 10 ^ 9)) None,
         ex_period 2023 None (Some (- 30 * 10 ^ 9))]\<rparr>"

text \<open>The histories the script derives from the first two statements, in billions.\<close>

definition ex_history :: "fcff_row list" where
  "ex_history =
     [\<lparr>row_date = (2020, 6, 30), cash_from_operations = Some 60, capex_col = Some (- 20),
        free_cash_flow = Some 40\<rparr>,
      \<lparr>row_date = (2021, 6, 30), cash_from_operations = Some 70, capex_col = Some (- 20),
        free_cash_flow = Some 50\<rparr>,
      \<lparr>row_date = (2023, 6, 30), cash_from_operations = Some 90, capex_col = Some (- 30),
        free_cash_flow = Some 60\<rparr>,
      \<lparr>row_date = (2024, 6, 30), cash_from_operations = Some 110, capex_col = Some (- 40),
        free_cash_flow = Some 70\<rparr>]"

definition ex_short_history :: "fcff_row list" where
  "ex_short_history =
     [\<lparr>row_date = (2024, 6, 30), cash_from_operations = Some 110, capex_col = Some (- 40),
        free_cash_flow = Some 70\<rparr>]"

definition ex_financials :: frame where
  "ex_financials =
     \<lparr>frame_columns = [''Interest Expense''],
      frame_rows =
        [((2024, 6, 30), (\<lambda>c. if c = ''Interest Expense'' then Some (2 * 10 ^ 9) else None)),
         ((2023, 6, 30), (\<lambda>c. None)),
         ((2022, 6, 30), (\<lambda>c. if c = ''Interest Expense'' then Some (- 15 * 10 ^ 8) else None))]\<rparr>"

definition ex_data :: market_data where
  "ex_data =
     \<lparr>info = [''marketCap'' \<mapsto> 10 ^ 12, ''totalDebt'' \<mapsto> 50 * 10 ^ 9,
              ''totalCash'' \<mapsto> 50 * 10 ^ 9, ''sharesOutstanding'' \<mapsto> 10 ^ 9],
      financials = ex_financials,
      cash_flow_stmt = ex_cash_flow,
      dgs10 = [Some (39 / 10), None, Some 4]\<rparr>"

text \<open>The same data with a profile that has no market capitalisation.\<close>

definition ex_no_cap :: market_data where
  "ex_no_cap = ex_data\<lparr>info := (info ex_data)(''marketCap'' := None)\<rparr>"

text \<open>The same data with a statement in which every period misses a value.\<close>

definition ex_void :: market_data where
  "ex_void = ex_data\<lparr>cash_flow_stmt := ex_void_cash_flow\<rparr>"

definition ex_assumptions :: assumptions where
  "ex_assumptions =
     \<lparr>forecast_years_slider = 5, fcff_growth_slider = 10, terminal_growth_slider = 5,
      beta_input = 1, market_return_input = 9\<rparr>"

text \<open>The same with a beta of zero: the discount rate is then the risk-free rate, 4 percent.\<close>

definition ex_low_beta :: assumptions where
  "ex_low_beta = ex_assumptions\<lparr>beta_input := 0\<rparr>"

section \<open>Properties\<close>

subsection \<open>Auxiliary facts\<close>

lemma bind_err_simps [simp]:
  "bind_err (Inl e) f = Inl e" "bind_err (Inr x) f = f x"
  by (simp_all add: bind_err_def)

lemma np_simps [simp]:
  "np_add (Some a) (Some b) = Some (a + b)"
  "np_sub (Some a) c = Some (a - c)"
  "np_mul (Some a) c = Some (a * c)"
  "c \<noteq> 0 \<Longrightarrow> np_div (Some a) c = Some (a / c)"
  "np_div (Some a) 0 = None"
  "np_div None c = None"
  "np_mul None c = None"
  "np_sub None c = None"
  "np_add None y = None"
  "np_add x None = None"
  by (simp_all add: np_add_def np_sub_def np_mul_def np_div_def split: option.splits)

lemma foldl_np_add_Some: "foldl np_add (Some a) (map Some xs) = Some (a + sum_list xs)"
  by (induction xs arbitrary: a) (simp_all add: add.assoc)

lemma py_sum_Some: "py_sum (map Some xs) = Some (sum_list xs)"
  by (simp add: py_sum_def foldl_np_add_Some)

lemma sum_list_upt_1: "sum_list (map f [1 ..< Suc n]) = (\<Sum>i = 1..n. f i)"
  by (simp add: interv_sum_list_conv_sum_set_nat atLeastLessThanSuc_atLeastAtMost del: upt_Suc)

lemma upt_nth1: "1 \<le> i \<Longrightarrow> i \<le> n \<Longrightarrow> [1 ..< Suc n] ! (i - 1) = i"
  using nth_upt [of 1 "i - 1" "Suc n"] by simp

lemma enumerate1_map: "map h (enumerate1 xs) = map (\<lambda>i. h (i, xs ! (i - 1))) [1 ..< Suc (length xs)]"
  by (rule nth_equalityI) (simp_all add: enumerate1_def del: upt_Suc)

lemma discounted_finite:
  assumes "1 + w \<noteq> 0"
  shows "discounted_fcffs (map Some ps) w = map Some (map (\<lambda>i. ps ! (i - 1) / (1 + w) ^ i) [1 ..< Suc (length ps)])"
  unfolding discounted_fcffs_def enumerate1_map
  using assms by (auto simp del: upt_Suc)

lemma py_last_map_Some: "ps \<noteq> [] \<Longrightarrow> py_last (map Some ps) = Inr (Some (ps ! (length ps - 1)))"
  by (simp add: py_last_def last_map last_conv_nth)

subsection \<open>The history frame\<close>

lemma fcff_frame_same:
  "fcff_frame (map (\<lambda>(d, r). (d, r a)) rows) (map (\<lambda>(d, r). (d, r b)) rows) =
     map (\<lambda>(d, r). \<lparr>row_date = d, cash_from_operations = r a, capex_col = r b,
                      free_cash_flow = nan_add (r a) (r b)\<rparr>) rows"
  unfolding fcff_frame_def by (induction rows) auto

lemma dropna_rows:
  "dropna (map (\<lambda>(d, r). \<lparr>row_date = d,
        cash_from_operations = r ''Cash Flow From Continuing Operating Activities'',
        capex_col = r ''Capital Expenditure'',
        free_cash_flow = nan_add (r ''Cash Flow From Continuing Operating Activities'')
                                 (r ''Capital Expenditure'')\<rparr>) rows)
   = spec_valid_periods \<lparr>frame_columns = cols, frame_rows = rows\<rparr>"
  unfolding dropna_def spec_valid_periods_def
  by (induction rows)
     (auto simp: has_nan_def nan_add_def split: option.splits)

lemma spec_valid_periods_rows:
  "spec_valid_periods cf = spec_valid_periods \<lparr>frame_columns = cols, frame_rows = frame_rows cf\<rparr>"
  by (simp add: spec_valid_periods_def)

lemma fcff_df_Inr:
  "fcff_df cf = Inr df \<longleftrightarrow>
     ''Cash Flow From Continuing Operating Activities'' \<in> set (frame_columns cf)
     \<and> ''Capital Expenditure'' \<in> set (frame_columns cf)
     \<and> df = sort_key row_date (spec_valid_periods cf)"
proof -
  have "dropna (sort_key row_date xs) = sort_key row_date (dropna xs)" for xs
    by (simp add: dropna_def filter_sort)
  then show ?thesis
    using dropna_rows [of "frame_rows cf" "[]"] spec_valid_periods_rows [of cf "[]"]
    by (auto simp: fcff_df_def get_column_def fcff_frame_same)
qed

lemma valid_rows_complete:
  "r \<in> set (List.map_filter
       (\<lambda>(d, r). case (r a, r b) of
                   (Some c, Some x) \<Rightarrow>
                     Some \<lparr>row_date = d, cash_from_operations = Some c, capex_col = Some x,
                           free_cash_flow = Some (c + x)\<rparr>
                 | _ \<Rightarrow> None) rows) \<Longrightarrow>
   \<exists>c x. cash_from_operations r = Some c \<and> capex_col r = Some x \<and> free_cash_flow r = Some (c + x)"
  by (induction rows) (auto split: option.splits)

lemma spec_valid_periods_complete:
  "r \<in> set (spec_valid_periods cf) \<Longrightarrow>
   \<exists>c x. cash_from_operations r = Some c \<and> capex_col r = Some x \<and> free_cash_flow r = Some (c + x)"
  unfolding spec_valid_periods_def by (rule valid_rows_complete)

lemma mean_Some: "xs \<noteq> [] \<Longrightarrow> mean (map Some xs) = Some (sum_list xs / real (length xs))"
proof -
  have "List.map_filter (\<lambda>x. x) (map Some xs) = xs"
    by (induction xs) simp_all
  then show "xs \<noteq> [] \<Longrightarrow> ?thesis" by (simp add: mean_def)
qed

lemma complete_column:
  assumes "\<forall>r\<in>set df. \<exists>f. free_cash_flow r = Some f"
  shows "\<exists>fs. fcff_column df = map Some fs \<and> length fs = length df"
proof -
  have "fcff_column df = map Some (map (\<lambda>r. the (free_cash_flow r)) df)"
    using assms by (auto simp: fcff_column_def)
  then show ?thesis by (intro exI [of _ "map (\<lambda>r. the (free_cash_flow r)) df"]) simp
qed

lemma tail3_short: "length xs \<le> 3 \<Longrightarrow> tail3 xs = xs"
  by (simp add: tail3_def)

lemma length3: "length ys = 3 \<Longrightarrow> \<exists>a b c. ys = [a, b, c]"
  by (auto simp: numeral_3_eq_3 length_Suc_conv)

lemma tail3_long:
  assumes "3 \<le> length xs"
  shows "\<exists>older a b c. xs = older @ [a, b, c] \<and> tail3 xs = [a, b, c]"
proof -
  let ?k = "length xs - 3"
  have "length (drop ?k xs) = 3" using assms by simp
  then obtain a b c where abc: "drop ?k xs = [a, b, c]"
    using length3 by blast
  have "xs = take ?k xs @ [a, b, c]"
    using append_take_drop_id [of ?k xs] abc by simp
  then show ?thesis using abc by (auto simp: tail3_def)
qed

subsection \<open>The computation block, stage by stage\<close>

lemma bind_err_Inr_iff: "bind_err m f = Inr y \<longleftrightarrow> (\<exists>x. m = Inr x \<and> f x = Inr y)"
  by (cases m) simp_all

lemma base_case_Inr_iff:
  "(\<exists>v. base_case projected n w g nd prof = Inr v) \<longleftrightarrow>
     projected \<noteq> [] \<and> prof ''sharesOutstanding'' \<noteq> None"
  by (auto simp: base_case_def terminal_value_def py_last_def shares_outstanding_def Let_def
      split: option.splits)

lemma base_case_shares:
  "base_case projected n w g nd prof = Inr v \<Longrightarrow>
   prof ''sharesOutstanding'' = Some (v_shares_outstanding v)"
  by (auto simp: base_case_def terminal_value_def py_last_def shares_outstanding_def Let_def
      split: option.splits if_splits)

lemma compute_Inr_iff:
  "compute a d = Inr r \<longleftrightarrow>
     (\<exists>df ly rf mc ie v.
        fcff_df (scale_frame (cash_flow_stmt d)) = Inr df
      \<and> last_year df = Inr ly
      \<and> risk_free_rate (dgs10 d) = Inr rf
      \<and> market_cap (info d) = Inr mc
      \<and> interest_expense (scale_frame (financials d)) (total_debt (info d)) = Inr ie
      \<and> base_case (projected_fcff (base_fcff df) (fcff_growth_slider a / 100) (forecast_years_slider a))
           (forecast_years_slider a)
           (wacc (equity_weight mc (net_debt (info d)))
                 (cost_of_equity rf (beta_input a) (market_return_input a / 100))
                 (debt_weight mc (net_debt (info d)))
                 (cost_of_debt ie (total_debt (info d))))
           (terminal_growth_slider a / 100) (net_debt (info d)) (info d) = Inr v
      \<and> r = \<lparr>r_fcff_df = df,
              r_projected_fcff = projected_fcff (base_fcff df) (fcff_growth_slider a / 100) (forecast_years_slider a),
              r_projection_df = projection_df (forecast_years_range ly (forecast_years_slider a))
                 (projected_fcff (base_fcff df) (fcff_growth_slider a / 100) (forecast_years_slider a)),
              r_risk_free_rate = rf, r_market_cap = mc, r_total_debt = total_debt (info d),
              r_cash = cash (info d), r_net_debt = net_debt (info d), r_interest_expense = ie,
              r_cost_of_debt = cost_of_debt ie (total_debt (info d)),
              r_cost_of_equity = cost_of_equity rf (beta_input a) (market_return_input a / 100),
              r_wacc = wacc (equity_weight mc (net_debt (info d)))
                 (cost_of_equity rf (beta_input a) (market_return_input a / 100))
                 (debt_weight mc (net_debt (info d)))
                 (cost_of_debt ie (total_debt (info d))),
              r_valuation = v\<rparr>)"
  unfolding compute_def Let_def bind_err_Inr_iff by (simp add: eq_commute [of r])

lemma compute_valuation:
  assumes "compute a d = Inr r"
  shows "base_case (r_projected_fcff r) (forecast_years_slider a) (r_wacc r)
           (terminal_growth_slider a / 100) (r_net_debt r) (info d) = Inr (r_valuation r)"
    and "r_projected_fcff r \<noteq> []"
    and "info d ''sharesOutstanding'' = Some (v_shares_outstanding (r_valuation r))"
    and "info d ''marketCap'' \<noteq> None"
    and "r_fcff_df r \<noteq> []"
    and "r_total_debt r = total_debt (info d)" "r_cash r = cash (info d)"
        "r_net_debt r = total_debt (info d) - cash (info d)"
proof -
  from assms obtain df ly rf mc ie v where
    st: "last_year df = Inr ly" "market_cap (info d) = Inr mc"
    and bc: "base_case (projected_fcff (base_fcff df) (fcff_growth_slider a / 100) (forecast_years_slider a))
           (forecast_years_slider a)
           (wacc (equity_weight mc (net_debt (info d)))
                 (cost_of_equity rf (beta_input a) (market_return_input a / 100))
                 (debt_weight mc (net_debt (info d)))
                 (cost_of_debt ie (total_debt (info d))))
           (terminal_growth_slider a / 100) (net_debt (info d)) (info d) = Inr v"
    and r: "r_fcff_df r = df" "r_valuation r = v"
       "r_projected_fcff r = projected_fcff (base_fcff df) (fcff_growth_slider a / 100) (forecast_years_slider a)"
       "r_wacc r = wacc (equity_weight mc (net_debt (info d)))
                 (cost_of_equity rf (beta_input a) (market_return_input a / 100))
                 (debt_weight mc (net_debt (info d)))
                 (cost_of_debt ie (total_debt (info d)))"
       "r_net_debt r = net_debt (info d)" "r_total_debt r = total_debt (info d)" "r_cash r = cash (info d)"
    unfolding compute_Inr_iff by auto
  show "base_case (r_projected_fcff r) (forecast_years_slider a) (r_wacc r)
           (terminal_growth_slider a / 100) (r_net_debt r) (info d) = Inr (r_valuation r)"
    using bc r by simp
  show "r_projected_fcff r \<noteq> []"
    using bc r base_case_Inr_iff by metis
  show "info d ''sharesOutstanding'' = Some (v_shares_outstanding (r_valuation r))"
    using base_case_shares [OF bc] r by simp
  show "info d ''marketCap'' \<noteq> None"
    using st(2) by (auto simp: market_cap_def split: option.splits)
  show "r_fcff_df r \<noteq> []"
    using st(1) r by (auto simp: last_year_def split: if_splits)
  show "r_total_debt r = total_debt (info d)" "r_cash r = cash (info d)"
        "r_net_debt r = total_debt (info d) - cash (info d)"
    using r by (simp_all add: net_debt_def)
qed

subsection \<open>The two loops write every cell once per pair of labels\<close>

lemma g_loop_other:
  "g_loop label body w gs df = Inr t \<Longrightarrow> k \<notin> (\<lambda>g. (label w, label g)) ` set gs \<Longrightarrow> t k = df k"
proof (induction gs arbitrary: df)
  case Nil
  then show ?case by simp
next
  case (Cons g gs)
  then obtain c where c: "body w g = Inr c"
    and rest: "g_loop label body w gs (df((label w, label g) \<mapsto> c)) = Inr t"
    by (cases "body w g") auto
  from Cons.prems(2) have "k \<noteq> (label w, label g)" "k \<notin> (\<lambda>g. (label w, label g)) ` set gs"
    by auto
  with Cons.IH [OF rest] show ?case by simp
qed

lemma g_loop_cell:
  "g_loop label body w gs df = Inr t \<Longrightarrow> inj_on label (set gs) \<Longrightarrow> g \<in> set gs \<Longrightarrow>
   \<exists>c. body w g = Inr c \<and> t (label w, label g) = Some c"
proof (induction gs arbitrary: df)
  case Nil
  then show ?case by simp
next
  case (Cons g0 gs)
  then obtain c where c: "body w g0 = Inr c"
    and rest: "g_loop label body w gs (df((label w, label g0) \<mapsto> c)) = Inr t"
    by (cases "body w g0") auto
  have inj: "inj_on label (set gs)"
    using Cons.prems(2) by (simp add: inj_on_def)
  show ?case
  proof (cases "g \<in> set gs")
    case True
    then show ?thesis using Cons.IH [OF rest inj] by blast
  next
    case False
    with Cons.prems(3) have eq: "g = g0" by simp
    have "label g0 \<notin> label ` set gs"
      using Cons.prems(2) False eq by (auto simp: inj_on_def)
    then have "(label w, label g0) \<notin> (\<lambda>g. (label w, label g)) ` set gs"
      by auto
    from g_loop_other [OF rest this] show ?thesis
      using c eq by simp
  qed
qed

lemma g_loop_total:
  "(\<And>g. g \<in> set gs \<Longrightarrow> \<exists>c. body w g = Inr c) \<Longrightarrow> \<exists>t. g_loop label body w gs df = Inr t"
proof (induction gs arbitrary: df)
  case Nil
  then show ?case by simp
next
  case (Cons g gs)
  then obtain c where "body w g = Inr c" by auto
  with Cons show ?case by simp
qed

lemma w_loop_other:
  "w_loop label body ws gs df = Inr t \<Longrightarrow>
   k \<notin> (\<lambda>(w, g). (label w, label g)) ` (set ws \<times> set gs) \<Longrightarrow> t k = df k"
proof (induction ws arbitrary: df)
  case Nil
  then show ?case by simp
next
  case (Cons w ws)
  then obtain df' where row: "g_loop label body w gs df = Inr df'"
    and rest: "w_loop label body ws gs df' = Inr t"
    by (cases "g_loop label body w gs df") auto
  from Cons.prems(2) have a: "k \<notin> (\<lambda>g. (label w, label g)) ` set gs"
    and b: "k \<notin> (\<lambda>(w, g). (label w, label g)) ` (set ws \<times> set gs)"
    by auto
  from Cons.IH [OF rest b] g_loop_other [OF row a] show ?case by simp
qed

lemma w_loop_cell:
  "w_loop label body ws gs df = Inr t \<Longrightarrow> inj_on label (set ws) \<Longrightarrow> inj_on label (set gs) \<Longrightarrow>
   w \<in> set ws \<Longrightarrow> g \<in> set gs \<Longrightarrow> \<exists>c. body w g = Inr c \<and> t (label w, label g) = Some c"
proof (induction ws arbitrary: df)
  case Nil
  then show ?case by simp
next
  case (Cons w0 ws)
  then obtain df' where row: "g_loop label body w0 gs df = Inr df'"
    and rest: "w_loop label body ws gs df' = Inr t"
    by (cases "g_loop label body w0 gs df") auto
  have inj: "inj_on label (set ws)"
    using Cons.prems(2) by (simp add: inj_on_def)
  show ?case
  proof (cases "w \<in> set ws")
    case True
    then show ?thesis using Cons.IH [OF rest inj Cons.prems(3) _ Cons.prems(5)] by blast
  next
    case False
    with Cons.prems(4) have eq: "w = w0" by simp
    have "label w0 \<notin> label ` set ws"
      using Cons.prems(2) False eq by (auto simp: inj_on_def)
    then have "(label w0, label g) \<notin> (\<lambda>(w, g). (label w, label g)) ` (set ws \<times> set gs)"
      by auto
    from w_loop_other [OF rest this] g_loop_cell [OF row Cons.prems(3) Cons.prems(5)]
    show ?thesis using eq by auto
  qed
qed

lemma w_loop_total:
  "(\<And>w g. \<exists>c. body w g = Inr c) \<Longrightarrow> \<exists>t. w_loop label body ws gs df = Inr t"
proof (induction ws arbitrary: df)
  case Nil
  then show ?case by simp
next
  case (Cons w ws)
  obtain df' where "g_loop label body w gs df = Inr df'"
    using g_loop_total [of gs body w label df] Cons.prems by blast
  with Cons show ?case by simp
qed

lemma fair_price_base_case:
  "prof ''sharesOutstanding'' = Some shares \<Longrightarrow>
   fair_price projected n nd shares w g =
     bind_err (base_case projected n w g nd prof) (\<lambda>v. Inr (v_fair_value_per_share v))"
  by (cases "py_last projected")
     (simp_all add: fair_price_def base_case_def terminal_value_def shares_outstanding_def
        discounted_fcffs_def terminal_value_discounted_def enterprise_value_def equity_value_def
        fair_value_per_share_def Let_def)

lemma cell_value_total:
  "projected \<noteq> [] \<Longrightarrow> \<exists>c. cell_value projected n nd shares w g = Inr c"
  by (simp add: cell_value_def fair_price_def py_last_def Let_def)

subsection \<open>Cells of the sensitivity table\<close>

lemma sensitivity_df_cell:
  assumes "sensitivity_df label projected n nd shares ws gs = Inr t"
    and "inj_on label (set ws)" "inj_on label (set gs)" "w \<in> set ws" "g \<in> set gs"
  shows "\<exists>c. cell_value projected n nd shares w g = Inr c \<and> t (label w, label g) = Some c"
  using assms(1) unfolding sensitivity_df_def
  by (rule w_loop_cell) (rule assms)+

lemma sensitivity_df_total:
  "projected \<noteq> [] \<Longrightarrow> \<exists>t. sensitivity_df label projected n nd shares ws gs = Inr t"
  unfolding sensitivity_df_def
  by (rule w_loop_total) (simp add: cell_value_total)

lemma cell_value_sentinel: "w \<le> g \<Longrightarrow> cell_value projected n nd shares w g = Inr (Text ''N/A'')"
  by (simp add: cell_value_def)

lemma cell_value_number:
  assumes "g < w" "base_case projected n w g nd prof = Inr v"
  shows "cell_value projected n nd (v_shares_outstanding v) w g
           = Inr (Number (py_round (v_fair_value_per_share v) 2))"
proof -
  have "prof ''sharesOutstanding'' = Some (v_shares_outstanding v)"
    using assms(2) by (rule base_case_shares)
  then have "fair_price projected n nd (v_shares_outstanding v) w g =
     bind_err (base_case projected n w g nd prof) (\<lambda>v. Inr (v_fair_value_per_share v))"
    by (rule fair_price_base_case)
  with assms show ?thesis by (simp add: cell_value_def)
qed

lemma sentinel_cells:
  assumes "sensitivity_df label projected n nd shares ws gs = Inr t"
    and "inj_on label (set ws)" "inj_on label (set gs)" "w \<in> set ws" "g \<in> set gs" "w \<le> g"
  shows "t (label w, label g) = Some (Text ''N/A'')"
  using sensitivity_df_cell [OF assms(1-5)] cell_value_sentinel [OF assms(6), of projected n nd shares]
  by auto

lemma number_cells:
  assumes t: "sensitivity_df label projected n nd shares ws gs = Inr t"
    and inj: "inj_on label (set ws)" "inj_on label (set gs)"
    and sh: "prof ''sharesOutstanding'' = Some shares"
    and cell: "w \<in> set ws" "g \<in> set gs" "g < w"
  shows "\<exists>v. base_case projected n w g nd prof = Inr v
               \<and> t (label w, label g) = Some (Number (py_round (v_fair_value_per_share v) 2))"
proof -
  from sensitivity_df_cell [OF t inj cell(1,2)]
  obtain c where c: "cell_value projected n nd shares w g = Inr c" "t (label w, label g) = Some c"
    by auto
  then have "projected \<noteq> []"
    using cell(3) by (auto simp: cell_value_def fair_price_def py_last_def split: if_splits)
  with sh have "\<exists>v. base_case projected n w g nd prof = Inr v"
    by (simp add: base_case_Inr_iff)
  then obtain v where v: "base_case projected n w g nd prof = Inr v" ..
  have "v_shares_outstanding v = shares"
    using base_case_shares [OF v] sh by simp
  with cell_value_number [OF cell(3) v] c v show ?thesis by auto
qed

subsection \<open>Labels of the rows and of the columns are distinct\<close>

lemma round_half_even_near: "\<bar>real_of_int (round_half_even y) - y\<bar> \<le> 1 / 2"
  unfolding round_half_even_def Let_def by (auto split: if_splits)

lemma digit_inj: "a < 10 \<Longrightarrow> b < 10 \<Longrightarrow> digit a = digit b \<Longrightarrow> a = b"
proof -
  have d: "distinct ''0123456789''" by simp
  show "a < 10 \<Longrightarrow> b < 10 \<Longrightarrow> digit a = digit b \<Longrightarrow> a = b"
    unfolding digit_def using nth_eq_iff_index_eq [OF d, of a b] by simp
qed

lemma digit_not_minus: "d < 10 \<Longrightarrow> digit d \<noteq> CHR ''-''"
proof -
  assume "d < 10"
  then have "digit d \<in> set ''0123456789''"
    unfolding digit_def by (intro nth_mem) simp
  then show ?thesis by auto
qed

lemma show_nat_nonempty: "show_nat n \<noteq> []"
  by (subst show_nat.simps) simp

lemma show_nat_hd: "hd (show_nat n) \<noteq> CHR ''-''"
proof (induction n rule: show_nat.induct)
  case (1 n)
  show ?case
  proof (cases "n < 10")
    case True
    then show ?thesis by (subst show_nat.simps) (simp add: digit_not_minus)
  next
    case False
    then show ?thesis
      using 1 show_nat_nonempty [of "n div 10"] by (subst show_nat.simps) simp
  qed
qed

lemma show_nat_length: "10 \<le> n \<Longrightarrow> 2 \<le> length (show_nat n)"
  using show_nat_nonempty [of "n div 10"]
  by (subst show_nat.simps) (cases "show_nat (n div 10)", simp_all)

lemma show_nat_inj: "show_nat n = show_nat m \<Longrightarrow> n = m"
proof (induction n arbitrary: m rule: show_nat.induct)
  case (1 n)
  show ?case
  proof (cases "n < 10")
    case n: True
    show ?thesis
    proof (cases "m < 10")
      case True
      with n 1(2) show ?thesis
        using digit_inj [of n m] by (simp add: show_nat.simps [of n] show_nat.simps [of m])
    next
      case False
      then have "2 \<le> length (show_nat m)" by (simp add: show_nat_length)
      moreover have "length (show_nat n) = 1" using n by (simp add: show_nat.simps [of n])
      ultimately show ?thesis using 1(2) by simp
    qed
  next
    case n: False
    show ?thesis
    proof (cases "m < 10")
      case True
      have "2 \<le> length (show_nat n)" using n by (simp add: show_nat_length)
      moreover have "length (show_nat m) = 1" using True by (simp add: show_nat.simps [of m])
      ultimately show ?thesis using 1(2) by simp
    next
      case False
      with n 1(2) have eq: "show_nat (n div 10) = show_nat (m div 10)" "digit (n mod 10) = digit (m mod 10)"
        by (simp_all add: show_nat.simps [of n] show_nat.simps [of m])
      from 1(1) [OF n eq(1)] have "n div 10 = m div 10" .
      moreover have "n mod 10 = m mod 10"
        using digit_inj [OF _ _ eq(2)] by simp
      ultimately show ?thesis
        by (metis div_mult_mod_eq)
    qed
  qed
qed

lemma tenths_label_inj: "tenths_label k = tenths_label j \<Longrightarrow> k = j"
proof -
  assume eq: "tenths_label k = tenths_label j"
  let ?body = "\<lambda>k. show_nat (nat \<bar>k\<bar> div 10) @ ''.'' @ [digit (nat \<bar>k\<bar> mod 10)] @ ''%''"
  have hd_body: "hd (?body i) \<noteq> CHR ''-''" for i :: int
    using show_nat_hd [of "nat \<bar>i\<bar> div 10"] show_nat_nonempty [of "nat \<bar>i\<bar> div 10"] by simp
  have sign: "k < 0 \<longleftrightarrow> j < 0"
  proof (rule ccontr)
    assume "\<not> ?thesis"
    then consider "k < 0" "\<not> j < 0" | "\<not> k < 0" "j < 0" by blast
    then show False
    proof cases
      case 1
      with eq have "CHR ''-'' # ?body k = ?body j" by (simp add: tenths_label_def Let_def)
      then have "hd (?body j) = CHR ''-''" by (metis list.sel(1))
      with hd_body show False by blast
    next
      case 2
      with eq have "?body k = CHR ''-'' # ?body j" by (simp add: tenths_label_def Let_def)
      then have "hd (?body k) = CHR ''-''" by (metis list.sel(1))
      with hd_body show False by blast
    qed
  qed
  from eq sign have "?body k = ?body j"
    by (cases "k < 0") (simp_all add: tenths_label_def Let_def)
  then have "show_nat (nat \<bar>k\<bar> div 10) = show_nat (nat \<bar>j\<bar> div 10)"
    and "digit (nat \<bar>k\<bar> mod 10) = digit (nat \<bar>j\<bar> mod 10)"
    by simp_all
  then have "nat \<bar>k\<bar> div 10 = nat \<bar>j\<bar> div 10" "nat \<bar>k\<bar> mod 10 = nat \<bar>j\<bar> mod 10"
    using show_nat_inj digit_inj [of "nat \<bar>k\<bar> mod 10" "nat \<bar>j\<bar> mod 10"] by simp_all
  then have "nat \<bar>k\<bar> = nat \<bar>j\<bar>"
    by (metis div_mult_mod_eq)
  with sign show "k = j" by linarith
qed

lemma pct_label_apart:
  assumes "pct_label x = pct_label y"
  shows "\<bar>x - y\<bar> \<le> 1 / 1000"
proof -
  from assms have "round_half_even (x * 100 * 10) = round_half_even (y * 100 * 10)"
    by (simp add: pct_label_def tenths_label_inj)
  with round_half_even_near [of "x * 100 * 10"] round_half_even_near [of "y * 100 * 10"]
  show ?thesis by linarith
qed

lemma wacc_range_eq:
  "wacc_range w = [w - 10 / 1000, w - 5 / 1000, w, w + 5 / 1000, w + 10 / 1000]"
  by (simp add: wacc_range_def arange_def upt_rec)

lemma g_range_eq: "g_range = [35 / 1000, 40 / 1000, 45 / 1000, 50 / 1000, 55 / 1000]"
  by (simp add: g_range_def arange_def upt_rec)

lemma inj_on_apart:
  assumes "\<And>x y. x \<in> set xs \<Longrightarrow> y \<in> set xs \<Longrightarrow> x \<noteq> y \<Longrightarrow> 1 / 1000 < \<bar>x - y\<bar>"
  shows "inj_on pct_label (set xs)"
proof (rule inj_onI)
  fix x y
  assume "x \<in> set xs" "y \<in> set xs" "pct_label x = pct_label y"
  with assms [of x y] pct_label_apart [of x y] show "x = y"
    by fastforce
qed

lemma inj_wacc_range: "inj_on pct_label (set (wacc_range w))"
  by (rule inj_on_apart) (auto simp: wacc_range_eq)

lemma inj_g_range: "inj_on pct_label (set g_range)"
  by (rule inj_on_apart) (auto simp: g_range_eq)

subsection \<open>Projection\<close>

text \<open>
  C4. With a finite base \<open>b\<close>, the projection has one value per forecast year; the value for
  year \<open>i\<close> (from 1 to \<open>n\<close>) is \<open>b * (1 + r) ^ i\<close>, a function of the base and the exponent
  alone, and it is paired with the year \<open>ly + i\<close>, where \<open>ly\<close> is the last historical year. For
  three years, a growth rate of 0.10 and a base of 100 the series is 110, 121, 133.1.
\<close>

theorem projection_anchored:
  "length (projected_fcff (Some b) r n) = n
   \<and> length (forecast_years_range ly n) = n
   \<and> (\<forall>i. 1 \<le> i \<and> i \<le> n \<longrightarrow>
          projected_fcff (Some b) r n ! (i - 1) = Some (b * (1 + r) ^ i)
        \<and> forecast_years_range ly n ! (i - 1) = ly + int i
        \<and> projection_df (forecast_years_range ly n) (projected_fcff (Some b) r n) ! (i - 1)
            = (ly + int i, Some (b * (1 + r) ^ i)))
   \<and> projected_fcff (Some 100) (10 / 100) 3 = [Some 110, Some 121, Some (1331 / 10)]"
proof -
  have len: "length (projected_fcff (Some b) r n) = n" "length (forecast_years_range ly n) = n"
    by (simp_all add: projected_fcff_def forecast_years_range_def)
  have nth: "projected_fcff (Some b) r n ! (i - 1) = Some (b * (1 + r) ^ i)"
            "forecast_years_range ly n ! (i - 1) = ly + int i"
    if "1 \<le> i" "i \<le> n" for i
    using that upt_nth1 [of i n]
    by (simp_all add: projected_fcff_def forecast_years_range_def del: upt_Suc)
  have ex: "projected_fcff (Some 100) (10 / 100) 3 = [Some 110, Some 121, Some (1331 / 10)]"
    by (simp add: projected_fcff_def upt_rec power_divide)
  have pair: "projection_df (forecast_years_range ly n) (projected_fcff (Some b) r n) ! (i - 1)
                = (ly + int i, Some (b * (1 + r) ^ i))"
    if "1 \<le> i" "i \<le> n" for i
    using that len nth [of i] by (simp add: projection_df_def)
  show ?thesis
    using len nth pair ex by simp
qed

theorem projection_anchored_witness:
  "(1::nat) \<le> 2 \<and> (2::nat) \<le> 5
   \<and> projected_fcff (Some 50) (1 / 10) 5 ! 1 = Some (605 / 10)
   \<and> forecast_years_range 2023 5 ! 1 = 2025"
  using projection_anchored [of 50 "1 / 10" 5 2023, THEN conjunct2, THEN conjunct2,
      THEN conjunct1, THEN spec [where x = 2]]
  by (simp add: power_divide)

subsection \<open>Capital weights\<close>

text \<open>
  C5. With total capital \<open>mc + nd\<close> not zero, the equity weight is \<open>mc / (mc + nd)\<close>, the debt
  weight is \<open>nd / (mc + nd)\<close>, and the two add up to one. With total capital zero, the equity
  weight is 1 and the debt weight is 0.
\<close>

theorem weights_normalised:
  "(mc + nd \<noteq> 0 \<longrightarrow>
      equity_weight mc nd = mc / total_value mc nd \<and> debt_weight mc nd = nd / total_value mc nd
      \<and> total_value mc nd = mc + nd \<and> equity_weight mc nd + debt_weight mc nd = 1)
   \<and> (mc + nd = 0 \<longrightarrow> equity_weight mc nd = 1 \<and> debt_weight mc nd = 0)"
  by (simp add: equity_weight_def debt_weight_def total_value_def add_divide_distrib [symmetric])

theorem weights_normalised_witness:
  "(3::real) + 1 \<noteq> 0 \<and> equity_weight 3 1 = 3 / 4 \<and> debt_weight 3 1 = 1 / 4
   \<and> equity_weight 3 1 + debt_weight 3 1 = 1
   \<and> (2::real) + (- 2) = 0 \<and> equity_weight 2 (- 2) = 1 \<and> debt_weight 2 (- 2) = 0"
  using weights_normalised [of 3 1] weights_normalised [of 2 "- 2"]
  by (simp add: total_value_def)

subsection \<open>Valuation\<close>

text \<open>
  C1. Let the projected values \<open>ps\<close> be finite, one per forecast year, with \<open>1 + w\<close>, \<open>w - g\<close>
  and the share count not zero (so that no division yields a non-finite float). Then the
  valuation succeeds, and: the discounted value of year \<open>i\<close> is \<open>ps[i] / (1 + w) ^ i\<close> for
  \<open>i\<close> from 1 to \<open>n\<close>; the terminal value is \<open>ps[n] * (1 + g) / (w - g)\<close>, discounted by
  \<open>(1 + w) ^ n\<close>; the enterprise value is the sum of the discounted values plus the discounted
  terminal value; the equity value is the enterprise value minus net debt; and the fair value
  per share is the equity value, converted from billions to units by the factor \<open>10^9\<close>,
  divided by the number of shares.
\<close>

theorem valuation_chain:
  assumes rates: "1 + w \<noteq> 0" "w \<noteq> g"
    and shares: "prof ''sharesOutstanding'' = Some shares" "shares \<noteq> 0"
    and proj: "length ps = n" "0 < n"
  defines "disc \<equiv> map (\<lambda>i. ps ! (i - 1) / (1 + w) ^ i) [1 ..< Suc n]"
    and "tv \<equiv> ps ! (n - 1) * (1 + g) / (w - g)"
  defines "tvd \<equiv> tv / (1 + w) ^ n"
  defines "ev \<equiv> (\<Sum>i = 1..n. ps ! (i - 1) / (1 + w) ^ i) + tvd"
  shows "base_case (map Some ps) n w g nd prof =
           Inr \<lparr>v_discounted_fcffs = map Some disc,
                v_terminal_value = Some tv,
                v_terminal_value_discounted = Some tvd,
                v_enterprise_value = Some ev,
                v_equity_value = Some (ev - nd),
                v_shares_outstanding = shares,
                v_fair_value_per_share = Some ((ev - nd) * 10 ^ 9 / shares)\<rparr>"
proof -
  have ne: "ps \<noteq> []" using proj by auto
  have d: "discounted_fcffs (map Some ps) w = map Some disc"
    using discounted_finite [OF rates(1), of ps] proj by (simp add: disc_def)
  have t: "terminal_value (map Some ps) g w = Inr (Some tv)"
    using rates(2) proj by (simp add: terminal_value_def py_last_map_Some [OF ne] tv_def)
  have td: "terminal_value_discounted (Some tv) w n = Some tvd"
    using rates(1) by (simp add: terminal_value_discounted_def tvd_def)
  have s: "sum_list disc = (\<Sum>i = 1..n. ps ! (i - 1) / (1 + w) ^ i)"
    unfolding disc_def by (rule sum_list_upt_1)
  have e: "enterprise_value (map Some disc) (Some tvd) = Some ev"
    unfolding enterprise_value_def py_sum_Some s ev_def by simp
  have q: "equity_value (Some ev) nd = Some (ev - nd)"
    by (simp add: equity_value_def)
  have f: "fair_value_per_share (Some (ev - nd)) shares = Some ((ev - nd) * 10 ^ 9 / shares)"
    using shares(2) by (simp add: fair_value_per_share_def)
  show ?thesis
    by (simp add: base_case_def d t td e q f shares_outstanding_def shares(1))
qed

theorem valuation_chain_witness:
  "base_case [Some 110, Some 121] 2 (1 / 10) (5 / 100) 10 [''sharesOutstanding'' \<mapsto> 10 ^ 9] =
     Inr \<lparr>v_discounted_fcffs = [Some 100, Some 100],
          v_terminal_value = Some 2541,
          v_terminal_value_discounted = Some 2100,
          v_enterprise_value = Some 2300,
          v_equity_value = Some 2290,
          v_shares_outstanding = 10 ^ 9,
          v_fair_value_per_share = Some 2290\<rparr>"
  using valuation_chain [of "1 / 10" "5 / 100" "[''sharesOutstanding'' \<mapsto> 10 ^ 9]" "10 ^ 9" "[110, 121]" 2 10]
  by (simp add: upt_rec power_divide power2_eq_square numeral_2_eq_2)


subsection \<open>Two sample runs\<close>

lemma ex_run:
  "case compute ex_assumptions ex_data of Inl e \<Rightarrow> False
   | Inr r \<Rightarrow> r_wacc r = 9 / 100 \<and> r_total_debt r = 50 \<and> r_cost_of_debt r = 3 / 100
       \<and> v_fair_value_per_share (r_valuation r) = Some (276238637400 / 141158161)"
  by code_simp

lemma ex_low_run:
  "case compute ex_low_beta ex_data of Inl e \<Rightarrow> False
   | Inr r \<Rightarrow> r_wacc r = 4 / 100
       \<and> v_terminal_value (r_valuation r) = Some (- (10146213 / 1000))
       \<and> v_fair_value_per_share (r_valuation r) = Some (- (14592803775 / 1827904))"
  by code_simp

subsection \<open>Sensitivity table\<close>

text \<open>
  C3. In the table the loops build, from any list of row rates and any list of column rates
  whose labels are distinct, every cell whose row rate is less than or equal to its column rate
  holds the string \<open>N/A\<close>, hence no number. So it is in the script: whenever the computation
  block succeeds, the table is built, and every such cell of it holds \<open>N/A\<close>.
\<close>

theorem sensitivity_sentinel:
  "(\<forall>t. sensitivity_df label projected n nd shares ws gs = Inr t
         \<and> inj_on label (set ws) \<and> inj_on label (set gs) \<longrightarrow>
         (\<forall>w\<in>set ws. \<forall>g\<in>set gs. w \<le> g \<longrightarrow> t (label w, label g) = Some (Text ''N/A'')))
   \<and> (\<forall>r. compute a d = Inr r \<longrightarrow>
         (\<exists>t. sensitivity a r = Inr t
            \<and> (\<forall>w\<in>set (wacc_range (r_wacc r)). \<forall>g\<in>set g_range.
                  w \<le> g \<longrightarrow> t (pct_label w, pct_label g) = Some (Text ''N/A''))))"
proof (intro conjI allI impI)
  fix t
  assume h: "sensitivity_df label projected n nd shares ws gs = Inr t
         \<and> inj_on label (set ws) \<and> inj_on label (set gs)"
  show "\<forall>w\<in>set ws. \<forall>g\<in>set gs. w \<le> g \<longrightarrow> t (label w, label g) = Some (Text ''N/A'')"
  proof (intro ballI impI)
    fix w g
    assume "w \<in> set ws" "g \<in> set gs" "w \<le> g"
    with h show "t (label w, label g) = Some (Text ''N/A'')"
      using sentinel_cells [of label projected n nd shares ws gs t w g] by simp
  qed
next
  fix r
  assume c: "compute a d = Inr r"
  have "r_projected_fcff r \<noteq> []"
    using c by (rule compute_valuation(2))
  then obtain t where t: "sensitivity a r = Inr t"
    using sensitivity_df_total unfolding sensitivity_def by blast
  have "\<forall>w\<in>set (wacc_range (r_wacc r)). \<forall>g\<in>set g_range.
          w \<le> g \<longrightarrow> t (pct_label w, pct_label g) = Some (Text ''N/A'')"
  proof (intro ballI impI)
    fix w g
    assume "w \<in> set (wacc_range (r_wacc r))" "g \<in> set g_range" "w \<le> g"
    with t [unfolded sensitivity_def] inj_wacc_range inj_g_range
    show "t (pct_label w, pct_label g) = Some (Text ''N/A'')"
      by (rule sentinel_cells)
  qed
  with t show "\<exists>t. sensitivity a r = Inr t
            \<and> (\<forall>w\<in>set (wacc_range (r_wacc r)). \<forall>g\<in>set g_range.
                  w \<le> g \<longrightarrow> t (pct_label w, pct_label g) = Some (Text ''N/A''))"
    by blast
qed

theorem sensitivity_sentinel_witness:
  "\<exists>r t. compute ex_low_beta ex_data = Inr r \<and> sensitivity ex_low_beta r = Inr t
       \<and> r_wacc r = 4 / 100
       \<and> t (''4.0%'', ''5.0%'') = Some (Text ''N/A'')"
proof -
  from ex_low_run obtain r where r: "compute ex_low_beta ex_data = Inr r" "r_wacc r = 4 / 100"
    by (cases "compute ex_low_beta ex_data") auto
  from sensitivity_sentinel [where a = ex_low_beta and d = ex_data, THEN conjunct2, THEN spec,
      THEN mp, OF r(1)]
  obtain t where t: "sensitivity ex_low_beta r = Inr t"
    "\<forall>w\<in>set (wacc_range (r_wacc r)). \<forall>g\<in>set g_range.
        w \<le> g \<longrightarrow> t (pct_label w, pct_label g) = Some (Text ''N/A'')"
    by blast
  have m: "(4 / 100 :: real) \<in> set (wacc_range (4 / 100))" "(5 / 100 :: real) \<in> set g_range"
    by (simp_all add: wacc_range_eq g_range_eq)
  have l: "pct_label (4 / 100) = ''4.0%''" "pct_label (5 / 100) = ''5.0%''"
    by code_simp+
  from t(2) [unfolded r(2), rule_format, OF m] l
  have "t (''4.0%'', ''5.0%'') = Some (Text ''N/A'')"
    by simp
  with r t(1) show ?thesis by blast
qed


lemma round_half_even_tie:
  "\<bar>y - real_of_int (round_half_even y)\<bar> = 1 / 2 \<Longrightarrow> even (round_half_even y)"
  unfolding round_half_even_def Let_def by (auto split: if_splits)

lemma py_round_nearest:
  "py_round None 2 = None"
  "\<exists>k::int. py_round (Some x) 2 = Some (of_int k / 100)
      \<and> \<bar>x * 100 - of_int k\<bar> \<le> 1 / 2
      \<and> (\<bar>x * 100 - of_int k\<bar> = 1 / 2 \<longrightarrow> even k)"
proof -
  show "py_round None 2 = None" by (simp add: py_round_def)
  let ?k = "round_half_even (x * 100)"
  have "py_round (Some x) 2 = Some (of_int ?k / 100)"
    by (simp add: py_round_def)
  moreover have "\<bar>x * 100 - of_int ?k\<bar> \<le> 1 / 2"
    using round_half_even_near [of "x * 100"] by (simp add: abs_minus_commute)
  moreover have "\<bar>x * 100 - of_int ?k\<bar> = 1 / 2 \<longrightarrow> even ?k"
    using round_half_even_tie [of "x * 100"] by blast
  ultimately show "\<exists>k::int. py_round (Some x) 2 = Some (of_int k / 100)
      \<and> \<bar>x * 100 - of_int k\<bar> \<le> 1 / 2
      \<and> (\<bar>x * 100 - of_int k\<bar> = 1 / 2 \<longrightarrow> even k)"
    by blast
qed

lemma rounded_cells:
  assumes t: "sensitivity_df label projected n nd shares ws gs = Inr t"
    and inj: "inj_on label (set ws)" "inj_on label (set gs)"
    and sh: "prof ''sharesOutstanding'' = Some shares"
    and cell: "w \<in> set ws" "g \<in> set gs" "g < w"
  shows "\<exists>v c. base_case projected n w g nd prof = Inr v
           \<and> t (label w, label g) = Some (Number c)
           \<and> (case v_fair_value_per_share v of
                 None \<Rightarrow> c = None
               | Some x \<Rightarrow>
                   (\<exists>k::int. c = Some (of_int k / 100)
                      \<and> \<bar>x * 100 - of_int k\<bar> \<le> 1 / 2
                      \<and> (\<bar>x * 100 - of_int k\<bar> = 1 / 2 \<longrightarrow> even k)))"
proof -
  from number_cells [of label projected n nd shares ws gs t prof w g] t inj sh cell
  obtain v where
    v: "base_case projected n w g nd prof = Inr v"
       "t (label w, label g) = Some (Number (py_round (v_fair_value_per_share v) 2))"
    by blast
  have "case v_fair_value_per_share v of
                 None \<Rightarrow> py_round (v_fair_value_per_share v) 2 = None
               | Some x \<Rightarrow>
                   (\<exists>k::int. py_round (v_fair_value_per_share v) 2 = Some (of_int k / 100)
                      \<and> \<bar>x * 100 - of_int k\<bar> \<le> 1 / 2
                      \<and> (\<bar>x * 100 - of_int k\<bar> = 1 / 2 \<longrightarrow> even k))"
    using py_round_nearest by (cases "v_fair_value_per_share v") simp_all
  with v show ?thesis by blast
qed

text \<open>
  C6. Take any list of row rates and any list of column rates whose labels are distinct. Every
  cell whose row rate \<open>w\<close> is greater than its column rate \<open>g\<close> holds a number \<open>c\<close>
  obtained as follows: the valuation of lines 91 to 100 is run again with \<open>w\<close> as discount
  rate and \<open>g\<close> as terminal growth rate on the same projection, net debt and share count; if
  its fair value per share \<open>x\<close> is finite, \<open>c\<close> is the multiple \<open>k / 100\<close> of one hundredth
  nearest to \<open>x\<close>, the even \<open>k\<close> on a tie (that is, \<open>x\<close> rounded to two decimals); if it is not
  finite, neither is \<open>c\<close>.

  After a successful computation block, the table is built whatever the two lists are, and if
  one of the row rates is the base discount rate and one of the column rates is the base
  terminal growth rate, the former above the latter, their cell holds the base-case fair value
  per share rounded in this way. (Whether \<^verbatim>\<open>np.arange\<close> on doubles yields the base discount
  rate itself as a row is not a matter of this model, so it is a hypothesis here.) The last
  part is the first for the script's own table, with the two ranges in exact arithmetic.
\<close>

theorem sensitivity_recomputed:
  "(\<forall>t. sensitivity_df label projected n nd shares ws gs = Inr t
         \<and> inj_on label (set ws) \<and> inj_on label (set gs)
         \<and> prof ''sharesOutstanding'' = Some shares \<longrightarrow>
         (\<forall>w\<in>set ws. \<forall>g\<in>set gs. g < w \<longrightarrow>
            (\<exists>v c. base_case projected n w g nd prof = Inr v
                 \<and> t (label w, label g) = Some (Number c)
                 \<and> (case v_fair_value_per_share v of
                       None \<Rightarrow> c = None
                     | Some x \<Rightarrow>
                         (\<exists>k::int. c = Some (of_int k / 100)
                            \<and> \<bar>x * 100 - of_int k\<bar> \<le> 1 / 2
                            \<and> (\<bar>x * 100 - of_int k\<bar> = 1 / 2 \<longrightarrow> even k))))))
   \<and> (\<forall>r. compute a d = Inr r \<longrightarrow>
         (\<exists>t. sensitivity_df label (r_projected_fcff r) (forecast_years_slider a) (r_net_debt r)
                 (v_shares_outstanding (r_valuation r)) ws gs = Inr t)
       \<and> (\<forall>t. sensitivity_df label (r_projected_fcff r) (forecast_years_slider a) (r_net_debt r)
                 (v_shares_outstanding (r_valuation r)) ws gs = Inr t
              \<and> inj_on label (set ws) \<and> inj_on label (set gs)
              \<and> r_wacc r \<in> set ws \<and> terminal_growth_slider a / 100 \<in> set gs
              \<and> terminal_growth_slider a / 100 < r_wacc r \<longrightarrow>
            (\<exists>c. t (label (r_wacc r), label (terminal_growth_slider a / 100)) = Some (Number c)
                 \<and> (case v_fair_value_per_share (r_valuation r) of
                       None \<Rightarrow> c = None
                     | Some x \<Rightarrow>
                         (\<exists>k::int. c = Some (of_int k / 100)
                            \<and> \<bar>x * 100 - of_int k\<bar> \<le> 1 / 2
                            \<and> (\<bar>x * 100 - of_int k\<bar> = 1 / 2 \<longrightarrow> even k)))))
       \<and> (\<exists>t. sensitivity a r = Inr t
            \<and> (\<forall>w\<in>set (wacc_range (r_wacc r)). \<forall>g\<in>set g_range. g < w \<longrightarrow>
                 (\<exists>v c. base_case (r_projected_fcff r) (forecast_years_slider a) w g (r_net_debt r) (info d) = Inr v
                 \<and> t (pct_label w, pct_label g) = Some (Number c)
                 \<and> (case v_fair_value_per_share v of
                       None \<Rightarrow> c = None
                     | Some x \<Rightarrow>
                         (\<exists>k::int. c = Some (of_int k / 100)
                            \<and> \<bar>x * 100 - of_int k\<bar> \<le> 1 / 2
                            \<and> (\<bar>x * 100 - of_int k\<bar> = 1 / 2 \<longrightarrow> even k)))))))"
proof (intro conjI allI impI)
  fix t
  assume h: "sensitivity_df label projected n nd shares ws gs = Inr t
         \<and> inj_on label (set ws) \<and> inj_on label (set gs)
         \<and> prof ''sharesOutstanding'' = Some shares"
  show "\<forall>w\<in>set ws. \<forall>g\<in>set gs. g < w \<longrightarrow>
            (\<exists>v c. base_case projected n w g nd prof = Inr v
                 \<and> t (label w, label g) = Some (Number c)
                 \<and> (case v_fair_value_per_share v of
                       None \<Rightarrow> c = None
                     | Some x \<Rightarrow>
                         (\<exists>k::int. c = Some (of_int k / 100)
                            \<and> \<bar>x * 100 - of_int k\<bar> \<le> 1 / 2
                            \<and> (\<bar>x * 100 - of_int k\<bar> = 1 / 2 \<longrightarrow> even k))))"
  proof (intro ballI impI)
    fix w g
    assume "w \<in> set ws" "g \<in> set gs" "g < w"
    with h show "(\<exists>v c. base_case projected n w g nd prof = Inr v
                 \<and> t (label w, label g) = Some (Number c)
                 \<and> (case v_fair_value_per_share v of
                       None \<Rightarrow> c = None
                     | Some x \<Rightarrow>
                         (\<exists>k::int. c = Some (of_int k / 100)
                            \<and> \<bar>x * 100 - of_int k\<bar> \<le> 1 / 2
                            \<and> (\<bar>x * 100 - of_int k\<bar> = 1 / 2 \<longrightarrow> even k))))"
      using rounded_cells [of label projected n nd shares ws gs t prof w g] by simp
  qed
next
  fix r
  assume c: "compute a d = Inr r"
  show "\<exists>t. sensitivity_df label (r_projected_fcff r) (forecast_years_slider a) (r_net_debt r)
                 (v_shares_outstanding (r_valuation r)) ws gs = Inr t"
    using compute_valuation(2) [OF c] by (rule sensitivity_df_total)
next
  fix r t
  assume c: "compute a d = Inr r"
  assume h: "sensitivity_df label (r_projected_fcff r) (forecast_years_slider a) (r_net_debt r)
                 (v_shares_outstanding (r_valuation r)) ws gs = Inr t
              \<and> inj_on label (set ws) \<and> inj_on label (set gs)
              \<and> r_wacc r \<in> set ws \<and> terminal_growth_slider a / 100 \<in> set gs
              \<and> terminal_growth_slider a / 100 < r_wacc r"
  note cv = compute_valuation [OF c]
  from h cv(3)
  have "(\<exists>v c. base_case (r_projected_fcff r) (forecast_years_slider a) (r_wacc r) (terminal_growth_slider a / 100) (r_net_debt r) (info d) = Inr v
                 \<and> t (label (r_wacc r), label (terminal_growth_slider a / 100)) = Some (Number c)
                 \<and> (case v_fair_value_per_share v of
                       None \<Rightarrow> c = None
                     | Some x \<Rightarrow>
                         (\<exists>k::int. c = Some (of_int k / 100)
                            \<and> \<bar>x * 100 - of_int k\<bar> \<le> 1 / 2
                            \<and> (\<bar>x * 100 - of_int k\<bar> = 1 / 2 \<longrightarrow> even k))))"
    using rounded_cells [of label "r_projected_fcff r" "forecast_years_slider a" "r_net_debt r"
        "v_shares_outstanding (r_valuation r)" ws gs t "info d" "r_wacc r"
        "terminal_growth_slider a / 100"]
    by simp
  with cv(1) show "(\<exists>c. t (label (r_wacc r), label (terminal_growth_slider a / 100)) = Some (Number c)
                 \<and> (case v_fair_value_per_share (r_valuation r) of
                       None \<Rightarrow> c = None
                     | Some x \<Rightarrow>
                         (\<exists>k::int. c = Some (of_int k / 100)
                            \<and> \<bar>x * 100 - of_int k\<bar> \<le> 1 / 2
                            \<and> (\<bar>x * 100 - of_int k\<bar> = 1 / 2 \<longrightarrow> even k))))"
    by auto
next
  fix r
  assume c: "compute a d = Inr r"
  note cv = compute_valuation [OF c]
  obtain t where t: "sensitivity a r = Inr t"
    using sensitivity_df_total [OF cv(2)] unfolding sensitivity_def by blast
  have "(\<exists>v c. base_case (r_projected_fcff r) (forecast_years_slider a) w g (r_net_debt r) (info d) = Inr v
                 \<and> t (pct_label w, pct_label g) = Some (Number c)
                 \<and> (case v_fair_value_per_share v of
                       None \<Rightarrow> c = None
                     | Some x \<Rightarrow>
                         (\<exists>k::int. c = Some (of_int k / 100)
                            \<and> \<bar>x * 100 - of_int k\<bar> \<le> 1 / 2
                            \<and> (\<bar>x * 100 - of_int k\<bar> = 1 / 2 \<longrightarrow> even k))))"
    if "w \<in> set (wacc_range (r_wacc r))" "g \<in> set g_range" "g < w" for w g
    using t [unfolded sensitivity_def] inj_wacc_range inj_g_range cv(3) that
    by (rule rounded_cells)
  with t show "\<exists>t. sensitivity a r = Inr t
            \<and> (\<forall>w\<in>set (wacc_range (r_wacc r)). \<forall>g\<in>set g_range. g < w \<longrightarrow>
                 (\<exists>v c. base_case (r_projected_fcff r) (forecast_years_slider a) w g (r_net_debt r) (info d) = Inr v
                 \<and> t (pct_label w, pct_label g) = Some (Number c)
                 \<and> (case v_fair_value_per_share v of
                       None \<Rightarrow> c = None
                     | Some x \<Rightarrow>
                         (\<exists>k::int. c = Some (of_int k / 100)
                            \<and> \<bar>x * 100 - of_int k\<bar> \<le> 1 / 2
                            \<and> (\<bar>x * 100 - of_int k\<bar> = 1 / 2 \<longrightarrow> even k)))))"
    by blast
qed

theorem sensitivity_recomputed_witness:
  "\<exists>r t. compute ex_assumptions ex_data = Inr r
       \<and> sensitivity_df pct_label (r_projected_fcff r) (forecast_years_slider ex_assumptions)
             (r_net_debt r) (v_shares_outstanding (r_valuation r))
             [8 / 100, 9 / 100] [5 / 100, 9 / 100] = Inr t
       \<and> r_wacc r = 9 / 100 \<and> terminal_growth_slider ex_assumptions / 100 = 5 / 100
       \<and> v_fair_value_per_share (r_valuation r) = Some (276238637400 / 141158161)
       \<and> t (''9.0%'', ''5.0%'') = Some (Number (Some (195694 / 100)))"
proof -
  from ex_run obtain r where r: "compute ex_assumptions ex_data = Inr r" "r_wacc r = 9 / 100"
      "v_fair_value_per_share (r_valuation r) = Some (276238637400 / 141158161)"
    by (cases "compute ex_assumptions ex_data") auto
  have g: "terminal_growth_slider ex_assumptions / 100 = 5 / 100"
    by (simp add: ex_assumptions_def)
  note th = sensitivity_recomputed [where a = ex_assumptions and d = ex_data and label = pct_label
      and ws = "[8 / 100, 9 / 100]" and gs = "[5 / 100, 9 / 100]",
      THEN conjunct2, THEN spec, THEN mp, OF r(1)]
  from th obtain t where
    t: "sensitivity_df pct_label (r_projected_fcff r) (forecast_years_slider ex_assumptions)
          (r_net_debt r) (v_shares_outstanding (r_valuation r))
          [8 / 100, 9 / 100] [5 / 100, 9 / 100] = Inr t"
    by blast
  have "inj_on pct_label (set [8 / 100, 9 / 100])"
    by (rule inj_on_apart) auto
  moreover have "inj_on pct_label (set [5 / 100, 9 / 100])"
    by (rule inj_on_apart) auto
  ultimately have inj: "inj_on pct_label (set [8 / 100, 9 / 100])"
      "inj_on pct_label (set [5 / 100, 9 / 100])"
    by blast+
  from th [THEN conjunct2, THEN conjunct1, THEN spec, of t] t inj r(2,3) g
  obtain k :: int where
    k: "t (pct_label (9 / 100), pct_label (5 / 100)) = Some (Number (Some (of_int k / 100)))"
       "\<bar>276238637400 / 141158161 * 100 - real_of_int k\<bar> \<le> 1 / 2"
    by auto
  from k(2) have "195693 < real_of_int k" "real_of_int k < 195695"
    by linarith+
  then have "195693 < k" "k < 195695"
    by linarith+
  then have "k = 195694" by simp
  moreover have "pct_label (9 / 100) = ''9.0%''" "pct_label (5 / 100) = ''5.0%''"
    by code_simp+
  ultimately have "t (''9.0%'', ''5.0%'') = Some (Number (Some (195694 / 100)))"
    using k(1) by simp
  with r t g show ?thesis by blast
qed

subsection \<open>Free cash flow history\<close>

lemma sorted_append_last3:
  assumes "sorted (map f (older @ [a, b, c]))"
  shows "\<forall>r\<in>set older. f r \<le> f a" "f a \<le> f b" "f b \<le> f c"
  using assms by (auto simp: sorted_append)

lemma ex_history_run: "fcff_df (scale_frame ex_cash_flow) = Inr ex_history"
  by code_simp

lemma ex_short_history_run: "fcff_df (scale_frame ex_short_cash_flow) = Inr ex_short_history"
  by code_simp

text \<open>
  C7. The history the script builds is the valid periods (those with both an operating cash
  flow and a capital expenditure) in ascending order of date: each of its rows has a free cash
  flow equal to its operating cash flow plus its capital expenditure, and with at least three
  rows the base is the arithmetic mean of the free cash flows of the last three, which are the
  three most recent.
\<close>

theorem fcff_history:
  assumes "fcff_df cash_flow = Inr df"
  shows "df = sort_key row_date (spec_valid_periods cash_flow)
       \<and> sorted (map row_date df)
       \<and> (\<forall>r\<in>set df. \<exists>c x. cash_from_operations r = Some c \<and> capex_col r = Some x
                            \<and> free_cash_flow r = Some (c + x))
       \<and> (3 \<le> length df \<longrightarrow>
            (\<exists>older r1 r2 r3 f1 f2 f3.
                df = older @ [r1, r2, r3]
              \<and> free_cash_flow r1 = Some f1 \<and> free_cash_flow r2 = Some f2 \<and> free_cash_flow r3 = Some f3
              \<and> (\<forall>r\<in>set older. row_date r \<le> row_date r1)
              \<and> row_date r1 \<le> row_date r2 \<and> row_date r2 \<le> row_date r3
              \<and> base_fcff df = Some ((f1 + f2 + f3) / 3)))"
proof -
  from assms have df: "df = sort_key row_date (spec_valid_periods cash_flow)"
    by (simp add: fcff_df_Inr)
  then have srt: "sorted (map row_date df)" by simp
  have cmpl: "\<exists>c x. cash_from_operations r = Some c \<and> capex_col r = Some x
                   \<and> free_cash_flow r = Some (c + x)" if "r \<in> set df" for r
    using that spec_valid_periods_complete [of r cash_flow] by (simp add: df)
  have base: "\<exists>older r1 r2 r3 f1 f2 f3.
                df = older @ [r1, r2, r3]
              \<and> free_cash_flow r1 = Some f1 \<and> free_cash_flow r2 = Some f2 \<and> free_cash_flow r3 = Some f3
              \<and> (\<forall>r\<in>set older. row_date r \<le> row_date r1)
              \<and> row_date r1 \<le> row_date r2 \<and> row_date r2 \<le> row_date r3
              \<and> base_fcff df = Some ((f1 + f2 + f3) / 3)" if "3 \<le> length df"
  proof -
    from tail3_long [OF that] obtain older r1 r2 r3
      where split: "df = older @ [r1, r2, r3]" by blast
    obtain f1 f2 f3 where f: "free_cash_flow r1 = Some f1" "free_cash_flow r2 = Some f2"
        "free_cash_flow r3 = Some f3"
      using cmpl [of r1] cmpl [of r2] cmpl [of r3] split by auto
    have "tail3 (fcff_column df) = [Some f1, Some f2, Some f3]"
      using f by (simp add: split fcff_column_def tail3_def)
    then have "base_fcff df = Some ((f1 + f2 + f3) / 3)"
      using mean_Some [of "[f1, f2, f3]"] by (simp add: base_fcff_def)
    with split f sorted_append_last3 [of row_date older r1 r2 r3] srt show ?thesis
      by blast
  qed
  from df srt cmpl base show ?thesis by blast
qed

theorem fcff_history_witness:
  "fcff_df (scale_frame ex_cash_flow) = Inr ex_history
   \<and> sorted (map row_date ex_history)
   \<and> 3 \<le> length ex_history
   \<and> base_fcff ex_history = Some ((50 + 60 + 70) / 3)"
proof -
  note h = fcff_history [OF ex_history_run]
  have len: "3 \<le> length ex_history" by (simp add: ex_history_def)
  from h have srt: "sorted (map row_date ex_history)" by blast
  from h len obtain older r1 r2 r3 f1 f2 f3 where
    split: "ex_history = older @ [r1, r2, r3]"
    and f: "free_cash_flow r1 = Some f1" "free_cash_flow r2 = Some f2" "free_cash_flow r3 = Some f3"
    and b: "base_fcff ex_history = Some ((f1 + f2 + f3) / 3)"
    by blast
  from split f have "f1 = 50" "f2 = 60" "f3 = 70"
    by (auto simp: ex_history_def)
  with b ex_history_run srt len show ?thesis by simp
qed


text \<open>
  C10. With one or two valid periods the base is the arithmetic mean of the free cash flows of
  all of them, and the last historical year is read without failure: nothing beyond
  non-emptiness is asked of the history.
\<close>

theorem base_fcff_short:
  assumes "fcff_df cash_flow = Inr df" and "df \<noteq> []" and "length df < 3"
  shows "\<exists>fs. fcff_column df = map Some fs \<and> length fs = length df
            \<and> base_fcff df = Some (sum_list fs / real (length df))
            \<and> last_year df = Inr (year (row_date (last df)))"
proof -
  from assms(1) have df: "df = sort_key row_date (spec_valid_periods cash_flow)"
    by (simp add: fcff_df_Inr)
  have "\<forall>r\<in>set df. \<exists>f. free_cash_flow r = Some f"
    using spec_valid_periods_complete [of _ cash_flow] by (auto simp: df)
  from complete_column [OF this] obtain fs
    where fs: "fcff_column df = map Some fs" "length fs = length df" by blast
  then have ne: "fs \<noteq> []" using assms(2) by auto
  have "tail3 (fcff_column df) = fcff_column df"
    using assms(3) fs by (simp add: tail3_short)
  then have "base_fcff df = Some (sum_list fs / real (length df))"
    using mean_Some [OF ne] fs by (simp add: base_fcff_def)
  with fs assms(2) show ?thesis by (auto simp: last_year_def)
qed


theorem base_fcff_short_witness:
  "fcff_df (scale_frame ex_short_cash_flow) = Inr ex_short_history
   \<and> ex_short_history \<noteq> [] \<and> length ex_short_history < 3
   \<and> base_fcff ex_short_history = Some 70
   \<and> last_year ex_short_history = Inr 2024"
proof -
  have ne: "ex_short_history \<noteq> []" "length ex_short_history < 3"
    by (simp_all add: ex_short_history_def)
  from base_fcff_short [OF ex_short_history_run ne] obtain fs where
    fs: "fcff_column ex_short_history = map Some fs" "length fs = length ex_short_history"
      "base_fcff ex_short_history = Some (sum_list fs / real (length ex_short_history))"
      "last_year ex_short_history = Inr (year (row_date (last ex_short_history)))"
    by blast
  from fs(1) have "fs = [70]"
    by (auto simp: ex_short_history_def fcff_column_def)
  with fs ne ex_short_history_run show ?thesis
    by (simp add: ex_short_history_def year_def)
qed


subsection \<open>Failures\<close>

lemma map_filter_none: "(\<And>x. x \<in> set xs \<Longrightarrow> f x = None) \<Longrightarrow> List.map_filter f xs = []"
  by (induction xs) simp_all

lemma scale_frame_columns [simp]: "frame_columns (scale_frame fr) = frame_columns fr"
  by (simp add: scale_frame_def)

lemma void_history:
  assumes "\<forall>(dt, row)\<in>set (frame_rows cf).
             row ''Cash Flow From Continuing Operating Activities'' = None
           \<or> row ''Capital Expenditure'' = None"
  shows "spec_valid_periods (scale_frame cf) = []"
  unfolding spec_valid_periods_def
  by (rule map_filter_none) (use assms in \<open>auto simp: scale_frame_def split: option.splits\<close>)

lemma fcff_df_Inl:
  "\<not> (''Cash Flow From Continuing Operating Activities'' \<in> set (frame_columns cf)
      \<and> ''Capital Expenditure'' \<in> set (frame_columns cf)) \<Longrightarrow> fcff_df cf = Inl KeyError"
  by (auto simp: fcff_df_def get_column_def)

lemma compute_history_error:
  "fcff_df (scale_frame (cash_flow_stmt d)) = Inl e \<Longrightarrow> compute a d = Inl e"
  by (simp add: compute_def Let_def)

lemma compute_empty_history:
  "fcff_df (scale_frame (cash_flow_stmt d)) = Inr [] \<Longrightarrow> compute a d = Inl IndexError"
  by (simp add: compute_def Let_def last_year_def)

lemma main_error:
  "compute a d = Inl e \<Longrightarrow> ticker \<noteq> [] \<Longrightarrow>
   main ticker a d = [Title ticker, Intro ticker, Error, Divider, Caption]"
  by (simp add: main_def)

text \<open>
  C8. When every period of the cash-flow statement misses its operating cash flow or its capital
  expenditure, the computation block fails: with \<open>IndexError\<close> on reading the last year of the
  empty history when both columns exist, with \<open>KeyError\<close> when a column is absent. The page
  then holds the title, the introduction, the error notice, a divider and the caption: no
  metric, no chart, no table.
\<close>

theorem insufficient_data:
  assumes "\<forall>(dt, row)\<in>set (frame_rows (cash_flow_stmt d)).
             row ''Cash Flow From Continuing Operating Activities'' = None
           \<or> row ''Capital Expenditure'' = None"
  shows "compute a d =
           Inl (if ''Cash Flow From Continuing Operating Activities'' \<in> set (frame_columns (cash_flow_stmt d))
                 \<and> ''Capital Expenditure'' \<in> set (frame_columns (cash_flow_stmt d))
                then IndexError else KeyError)
       \<and> (ticker \<noteq> [] \<longrightarrow> main ticker a d = [Title ticker, Intro ticker, Error, Divider, Caption])"
proof -
  let ?cols = "''Cash Flow From Continuing Operating Activities'' \<in> set (frame_columns (cash_flow_stmt d))
                 \<and> ''Capital Expenditure'' \<in> set (frame_columns (cash_flow_stmt d))"
  have c: "compute a d = Inl (if ?cols then IndexError else KeyError)"
  proof (cases ?cols)
    case True
    then have "fcff_df (scale_frame (cash_flow_stmt d)) = Inr []"
      using void_history [OF assms] by (simp add: fcff_df_Inr)
    with True show ?thesis by (simp add: compute_empty_history)
  next
    case False
    then have "fcff_df (scale_frame (cash_flow_stmt d)) = Inl KeyError"
      by (intro fcff_df_Inl) simp
    with False show ?thesis by (simp add: compute_history_error)
  qed
  with main_error [of a d _ ticker] show ?thesis by simp
qed

theorem insufficient_data_witness:
  "compute ex_assumptions ex_void = Inl IndexError
   \<and> main ''MSFT'' ex_assumptions ex_void = [Title ''MSFT'', Intro ''MSFT'', Error, Divider, Caption]"
  using insufficient_data [of ex_void ex_assumptions "''MSFT''"]
  by (simp add: ex_void_def ex_void_cash_flow_def ex_period_def)


subsection \<open>Profile fields\<close>

lemma compute_projected:
  assumes "compute a d = Inr r"
  shows "\<exists>df ly rf mc ie.
      fcff_df (scale_frame (cash_flow_stmt d)) = Inr df \<and> last_year df = Inr ly
    \<and> risk_free_rate (dgs10 d) = Inr rf \<and> market_cap (info d) = Inr mc
    \<and> interest_expense (scale_frame (financials d)) (total_debt (info d)) = Inr ie
    \<and> projected_fcff (base_fcff df) (fcff_growth_slider a / 100) (forecast_years_slider a) \<noteq> []"
proof -
  from assms obtain df ly rf mc ie where
    st: "fcff_df (scale_frame (cash_flow_stmt d)) = Inr df" "last_year df = Inr ly"
      "risk_free_rate (dgs10 d) = Inr rf" "market_cap (info d) = Inr mc"
      "interest_expense (scale_frame (financials d)) (total_debt (info d)) = Inr ie"
    and pr: "r_projected_fcff r
        = projected_fcff (base_fcff df) (fcff_growth_slider a / 100) (forecast_years_slider a)"
    unfolding compute_Inr_iff by auto
  from compute_valuation(2) [OF assms] pr
  have "projected_fcff (base_fcff df) (fcff_growth_slider a / 100) (forecast_years_slider a) \<noteq> []"
    by simp
  with st show ?thesis by blast
qed

lemma compute_succeeds:
  assumes "fcff_df (scale_frame (cash_flow_stmt d)) = Inr df" "last_year df = Inr ly"
    and "risk_free_rate (dgs10 d) = Inr rf" "market_cap (info d) = Inr mc"
    and "interest_expense (scale_frame (financials d)) (total_debt (info d)) = Inr ie"
    and "projected_fcff (base_fcff df) (fcff_growth_slider a / 100) (forecast_years_slider a) \<noteq> []"
    and "info d ''sharesOutstanding'' \<noteq> None"
  shows "\<exists>r. compute a d = Inr r \<and> r_total_debt r = total_debt (info d) \<and> r_cash r = cash (info d)
           \<and> r_interest_expense r = ie"
proof -
  have "\<exists>v. base_case (projected_fcff (base_fcff df) (fcff_growth_slider a / 100) (forecast_years_slider a))
           (forecast_years_slider a)
           (wacc (equity_weight mc (net_debt (info d)))
                 (cost_of_equity rf (beta_input a) (market_return_input a / 100))
                 (debt_weight mc (net_debt (info d)))
                 (cost_of_debt ie (total_debt (info d))))
           (terminal_growth_slider a / 100) (net_debt (info d)) (info d) = Inr v"
    unfolding base_case_Inr_iff using assms(6,7) by simp
  then obtain v where "base_case (projected_fcff (base_fcff df) (fcff_growth_slider a / 100) (forecast_years_slider a))
           (forecast_years_slider a)
           (wacc (equity_weight mc (net_debt (info d)))
                 (cost_of_equity rf (beta_input a) (market_return_input a / 100))
                 (debt_weight mc (net_debt (info d)))
                 (cost_of_debt ie (total_debt (info d))))
           (terminal_growth_slider a / 100) (net_debt (info d)) (info d) = Inr v" ..
  with assms(1-5) show ?thesis
    unfolding compute_Inr_iff by simp
qed

lemma compute_without_cash:
  assumes "compute a d = Inr r"
  shows "\<exists>r'. compute a (d\<lparr>info := (info d)(''totalCash'' := None)\<rparr>) = Inr r'
            \<and> r_cash r' = 0 \<and> r_total_debt r' = r_total_debt r"
proof -
  from compute_projected [OF assms] obtain df ly rf mc ie where
    st: "fcff_df (scale_frame (cash_flow_stmt d)) = Inr df" "last_year df = Inr ly"
      "risk_free_rate (dgs10 d) = Inr rf" "market_cap (info d) = Inr mc"
      "interest_expense (scale_frame (financials d)) (total_debt (info d)) = Inr ie"
      "projected_fcff (base_fcff df) (fcff_growth_slider a / 100) (forecast_years_slider a) \<noteq> []"
    by blast
  have sh: "info d ''sharesOutstanding'' \<noteq> None"
    using compute_valuation(3) [OF assms] by simp
  have "\<exists>r'. compute a (d\<lparr>info := (info d)(''totalCash'' := None)\<rparr>) = Inr r'
      \<and> r_total_debt r' = total_debt (info (d\<lparr>info := (info d)(''totalCash'' := None)\<rparr>))
      \<and> r_cash r' = cash (info (d\<lparr>info := (info d)(''totalCash'' := None)\<rparr>))
      \<and> r_interest_expense r' = ie"
    by (rule compute_succeeds [where df = df and ly = ly and rf = rf and mc = mc])
       (use st sh in \<open>simp_all add: market_cap_def total_debt_def\<close>)
  then show ?thesis
    using compute_valuation(6) [OF assms] by (auto simp: total_debt_def cash_def)
qed

lemma compute_without_debt:
  assumes "compute a d = Inr r"
  shows "\<exists>r'. compute a (d\<lparr>info := (info d)(''totalDebt'' := None)\<rparr>) = Inr r'
            \<and> r_total_debt r' = 0 \<and> r_cash r' = r_cash r"
proof -
  from compute_projected [OF assms] obtain df ly rf mc ie where
    st: "fcff_df (scale_frame (cash_flow_stmt d)) = Inr df" "last_year df = Inr ly"
      "risk_free_rate (dgs10 d) = Inr rf" "market_cap (info d) = Inr mc"
      "projected_fcff (base_fcff df) (fcff_growth_slider a / 100) (forecast_years_slider a) \<noteq> []"
    by blast
  have sh: "info d ''sharesOutstanding'' \<noteq> None"
    using compute_valuation(3) [OF assms] by simp
  have "\<exists>r'. compute a (d\<lparr>info := (info d)(''totalDebt'' := None)\<rparr>) = Inr r'
      \<and> r_total_debt r' = total_debt (info (d\<lparr>info := (info d)(''totalDebt'' := None)\<rparr>))
      \<and> r_cash r' = cash (info (d\<lparr>info := (info d)(''totalDebt'' := None)\<rparr>))
      \<and> r_interest_expense r' = 0"
    by (rule compute_succeeds [where df = df and ly = ly and rf = rf and mc = mc])
       (use st sh in \<open>simp_all add: market_cap_def total_debt_def interest_expense_def\<close>)
  then show ?thesis
    using compute_valuation(7) [OF assms] by (auto simp: total_debt_def cash_def)
qed

lemma compute_required:
  assumes "info d ''marketCap'' = None \<or> info d ''sharesOutstanding'' = None"
  shows "\<exists>e. compute a d = Inl e"
proof (cases "compute a d")
  case (Inl e)
  then show ?thesis by blast
next
  case (Inr r)
  from compute_valuation(3,4) [OF Inr] assms show ?thesis by auto
qed


lemma ex_no_cap_run: "compute ex_assumptions ex_no_cap = Inl KeyError"
  by code_simp

text \<open>
  C9, as the script has it. An absent \<open>totalDebt\<close> or \<open>totalCash\<close> counts as 0, and a run
  that succeeds still succeeds when either is taken out of the profile. An absent \<open>marketCap\<close>
  or \<open>sharesOutstanding\<close> makes the computation block fail, and the page shows the error
  notice.
\<close>

theorem profile_fields:
  "(info d ''totalDebt'' = None \<longrightarrow> total_debt (info d) = 0)
   \<and> (info d ''totalCash'' = None \<longrightarrow> cash (info d) = 0)
   \<and> (\<forall>r. compute a d = Inr r \<longrightarrow>
          (\<exists>r'. compute a (d\<lparr>info := (info d)(''totalDebt'' := None)\<rparr>) = Inr r'
                \<and> r_total_debt r' = 0 \<and> r_cash r' = r_cash r)
        \<and> (\<exists>r'. compute a (d\<lparr>info := (info d)(''totalCash'' := None)\<rparr>) = Inr r'
                \<and> r_cash r' = 0 \<and> r_total_debt r' = r_total_debt r))
   \<and> (info d ''marketCap'' = None \<or> info d ''sharesOutstanding'' = None \<longrightarrow>
          (\<exists>e. compute a d = Inl e)
        \<and> (ticker \<noteq> [] \<longrightarrow>
              main ticker a d = [Title ticker, Intro ticker, Error, Divider, Caption]))"
proof (intro conjI allI impI)
  show "total_debt (info d) = 0" if "info d ''totalDebt'' = None"
    using that by (simp add: total_debt_def)
  show "cash (info d) = 0" if "info d ''totalCash'' = None"
    using that by (simp add: cash_def)
next
  fix r
  assume "compute a d = Inr r"
  then show "\<exists>r'. compute a (d\<lparr>info := (info d)(''totalDebt'' := None)\<rparr>) = Inr r'
                \<and> r_total_debt r' = 0 \<and> r_cash r' = r_cash r"
    and "\<exists>r'. compute a (d\<lparr>info := (info d)(''totalCash'' := None)\<rparr>) = Inr r'
                \<and> r_cash r' = 0 \<and> r_total_debt r' = r_total_debt r"
    by (rule compute_without_debt, rule compute_without_cash)
next
  assume req: "info d ''marketCap'' = None \<or> info d ''sharesOutstanding'' = None"
  then show e: "\<exists>e. compute a d = Inl e"
    by (rule compute_required)
  show "main ticker a d = [Title ticker, Intro ticker, Error, Divider, Caption]" if "ticker \<noteq> []"
    using e that main_error [of a d _ ticker] by blast
qed

theorem profile_fields_witness:
  "info ex_data ''totalDebt'' = Some (50 * 10 ^ 9) \<and> info ex_data ''totalCash'' = Some (50 * 10 ^ 9)
   \<and> (\<exists>r. compute ex_assumptions ex_data = Inr r
        \<and> (\<exists>r'. compute ex_assumptions (ex_data\<lparr>info := (info ex_data)(''totalDebt'' := None)\<rparr>) = Inr r'
              \<and> r_total_debt r' = 0)
        \<and> (\<exists>r'. compute ex_assumptions (ex_data\<lparr>info := (info ex_data)(''totalCash'' := None)\<rparr>) = Inr r'
              \<and> r_cash r' = 0))
   \<and> total_debt ((info ex_data)(''totalDebt'' := None)) = 0
   \<and> cash ((info ex_data)(''totalCash'' := None)) = 0
   \<and> info ex_no_cap ''marketCap'' = None
   \<and> main ''MSFT'' ex_assumptions ex_no_cap = [Title ''MSFT'', Intro ''MSFT'', Error, Divider, Caption]"
proof -
  from ex_run obtain r where r: "compute ex_assumptions ex_data = Inr r"
    by (cases "compute ex_assumptions ex_data") auto
  note p = profile_fields [of ex_data ex_assumptions "''MSFT''"]
  from p r have
    "\<exists>r'. compute ex_assumptions (ex_data\<lparr>info := (info ex_data)(''totalDebt'' := None)\<rparr>) = Inr r'
          \<and> r_total_debt r' = 0"
    "\<exists>r'. compute ex_assumptions (ex_data\<lparr>info := (info ex_data)(''totalCash'' := None)\<rparr>) = Inr r'
          \<and> r_cash r' = 0"
    by blast+
  moreover have "total_debt ((info ex_data)(''totalDebt'' := None)) = 0"
    using profile_fields [of "ex_data\<lparr>info := (info ex_data)(''totalDebt'' := None)\<rparr>"]
    by simp
  moreover have "cash ((info ex_data)(''totalCash'' := None)) = 0"
    using profile_fields [of "ex_data\<lparr>info := (info ex_data)(''totalCash'' := None)\<rparr>"]
    by simp
  moreover have n: "info ex_no_cap ''marketCap'' = None"
    by (simp add: ex_no_cap_def)
  moreover have "main ''MSFT'' ex_assumptions ex_no_cap
      = [Title ''MSFT'', Intro ''MSFT'', Error, Divider, Caption]"
    using profile_fields [of ex_no_cap ex_assumptions "''MSFT''"] n by simp
  moreover have "info ex_data ''totalDebt'' = Some (50 * 10 ^ 9)"
    "info ex_data ''totalCash'' = Some (50 * 10 ^ 9)"
    by (simp_all add: ex_data_def)
  ultimately show ?thesis using r by blast
qed


text \<open>
  C9 as stated does not hold: with a profile that lacks only \<open>marketCap\<close>, the run does not
  go on with 0 in its place, it fails with \<open>KeyError\<close>.
\<close>

theorem profile_defaults_counterexample:
  "info ex_no_cap ''marketCap'' = None
   \<and> info ex_no_cap ''sharesOutstanding'' = Some (10 ^ 9)
   \<and> compute ex_assumptions ex_no_cap = Inl KeyError
   \<and> main ''MSFT'' ex_assumptions ex_no_cap = [Title ''MSFT'', Intro ''MSFT'', Error, Divider, Caption]"
  using ex_no_cap_run main_error [OF ex_no_cap_run, of "''MSFT''"]
  by (simp add: ex_no_cap_def ex_data_def)

subsection \<open>The base case has no test of the two rates\<close>

text \<open>
  C2. With a beta of zero the sample's discount rate is 4 percent, below the terminal growth
  rate of 5 percent. The computation block succeeds all the same: the terminal value is a
  negative number, and the page shows a negative fair value per share as an ordinary metric,
  with no error notice.
\<close>

theorem base_case_unguarded:
  "case compute ex_low_beta ex_data of
     Inl e \<Rightarrow> False
   | Inr r \<Rightarrow>
       r_wacc r = 4 / 100 \<and> terminal_growth_slider ex_low_beta / 100 = 5 / 100
     \<and> v_terminal_value (r_valuation r) = Some (- (10146213 / 1000))
     \<and> v_fair_value_per_share (r_valuation r) = Some (- (14592803775 / 1827904))
     \<and> Metric ''Fair Value per Share'' (Amount (Some (- (14592803775 / 1827904))))
         \<in> set (summary ex_low_beta r)
     \<and> Error \<notin> set (summary ex_low_beta r)"
proof -
  from ex_low_run obtain r where r: "compute ex_low_beta ex_data = Inr r" "r_wacc r = 4 / 100"
      "v_terminal_value (r_valuation r) = Some (- (10146213 / 1000))"
      "v_fair_value_per_share (r_valuation r) = Some (- (14592803775 / 1827904))"
    by (cases "compute ex_low_beta ex_data") auto
  have "terminal_growth_slider ex_low_beta / 100 = 5 / 100"
    by (simp add: ex_low_beta_def ex_assumptions_def)
  moreover have "Metric ''Fair Value per Share'' (Amount (Some (- (14592803775 / 1827904))))
         \<in> set (summary ex_low_beta r)" "Error \<notin> set (summary ex_low_beta r)"
    using r(4) by (simp_all add: summary_def)
  ultimately show ?thesis using r by simp
qed


end
